theory Spec2Isabelle
  imports Main "HOL-Library.AList" "HOL-Library.Char_ord" "HOL-Library.List_Lexorder"
begin

section \<open>Values, errors and the object store\<close>

text \<open>
  Node and edge keys are strings. Objects that the program creates with an object
  literal or with \<^verbatim>\<open>new Set()\<close> live in a store: a list of cells, an address being an
  index into it, and an allocation appending one cell. Two references are the same
  object exactly when their addresses are equal.
\<close>

type_synonym key = string
type_synonym addr = nat

datatype error = InvalidArgumentsGraphError | NotFoundGraphError | UsageGraphError | TypeError

datatype graph_type = TDirected | TUndirected | TMixed

text \<open>A JavaScript number-valued property: absent (\<^verbatim>\<open>undefined\<close>), \<^verbatim>\<open>NaN\<close>, or an integer.\<close>

datatype num = Undefined | NaN | Num int

fun js_add :: "num \<Rightarrow> num \<Rightarrow> num" where
  "js_add (Num a) (Num b) = Num (a + b)"
| "js_add _ _ = NaN"

definition js_inc :: "num \<Rightarrow> num" where
  "js_inc x = js_add x (Num 1)"

definition js_dec :: "num \<Rightarrow> num" where
  "js_dec x = js_add x (Num (- 1))"

text \<open>
  An adjacency entry of the structure index: an edge record, a set of edge records, or
  a value inherited from \<^verbatim>\<open>Object.prototype\<close> that a register lookup returned.
\<close>

datatype entry = EdgeRef addr | SetRef addr | ProtoValue

text \<open>
  A property of an attributes object holds a primitive value or a reference to another
  object of the store.
\<close>

datatype attr_value = Primitive string | Reference addr

datatype obj = Attrs "(string \<times> attr_value) list" | EdgeRecord | SetObj "entry list"

definition alloc :: "obj list \<Rightarrow> obj \<Rightarrow> addr \<times> obj list" where
  "alloc h c = (length h, h @ [c])"

definition deref :: "obj list \<Rightarrow> addr \<Rightarrow> obj option" where
  "deref h a = (if a < length h then Some (h ! a) else None)"

type_synonym register = "(key \<times> entry) list"

record node_data =
  n_attributes :: addr
  n_selfLoops :: num
  n_inDegree :: num
  n_outDegree :: num
  n_undirectedDegree :: num
  n_out :: "register option"
  n_in :: "register option"
  n_undirected :: "register option"
  n_undirectedOut :: "register option"
  n_undirectedIn :: "register option"

record edge_data =
  e_ref :: addr
  e_undirected :: bool
  e_attributes :: addr
  e_source :: key
  e_target :: key

record graph =
  g_type :: graph_type
  g_multi :: bool
  g_allowSelfLoops :: bool
  g_map :: bool
  g_order :: int
  g_size :: int
  g_nodes :: "(key \<times> node_data) list"
  g_edges :: "(key \<times> edge_data) list"
  g_computed :: bool
  g_heap :: "obj list"

text \<open>The constructor without hydratation data: \<^verbatim>\<open>new Graph(null, options)\<close>.\<close>

definition new_graph :: "graph_type \<Rightarrow> bool \<Rightarrow> bool \<Rightarrow> bool \<Rightarrow> obj list \<Rightarrow> graph" where
  "new_graph ty multi loops mp h =
     \<lparr>g_type = ty, g_multi = multi, g_allowSelfLoops = loops, g_map = mp,
      g_order = 0, g_size = 0, g_nodes = [], g_edges = [], g_computed = False, g_heap = h\<rparr>"

section \<open>Property lookup\<close>

text \<open>
  Without the \<^verbatim>\<open>map\<close> option the tables are plain objects created by \<^verbatim>\<open>{}\<close>, so the
  operator \<^verbatim>\<open>in\<close> and a property read also see what is inherited from
  \<^verbatim>\<open>Object.prototype\<close>. With the option they are \<^verbatim>\<open>Map\<close>s, whose \<^verbatim>\<open>has\<close> and
  \<^verbatim>\<open>get\<close> see stored keys only.
\<close>

definition object_prototype_keys :: "key list" where
  "object_prototype_keys =
     [''constructor'', ''toString'', ''toLocaleString'', ''valueOf'', ''hasOwnProperty'',
      ''isPrototypeOf'', ''propertyIsEnumerable'', ''__proto__'', ''__defineGetter__'',
      ''__defineSetter__'', ''__lookupGetter__'', ''__lookupSetter__'']"

datatype 'a looked = Own 'a | Inherited | Absent

definition own_keys :: "(key \<times> 'a) list \<Rightarrow> key set" where
  "own_keys t = fst ` set t"

definition js_in :: "key \<Rightarrow> (key \<times> 'a) list \<Rightarrow> bool" where
  "js_in k t \<longleftrightarrow> k \<in> own_keys t \<or> k \<in> set object_prototype_keys"

definition js_get :: "key \<Rightarrow> (key \<times> 'a) list \<Rightarrow> 'a looked" where
  "js_get k t =
     (case map_of t k of
        Some v \<Rightarrow> Own v
      | None \<Rightarrow> if k \<in> set object_prototype_keys then Inherited else Absent)"

definition map_get :: "key \<Rightarrow> (key \<times> 'a) list \<Rightarrow> 'a looked" where
  "map_get k t = (case map_of t k of Some v \<Rightarrow> Own v | None \<Rightarrow> Absent)"

definition table_has :: "bool \<Rightarrow> key \<Rightarrow> (key \<times> 'a) list \<Rightarrow> bool" where
  "table_has mp k t = (if mp then k \<in> own_keys t else js_in k t)"

definition table_get :: "bool \<Rightarrow> key \<Rightarrow> (key \<times> 'a) list \<Rightarrow> 'a looked" where
  "table_get mp k t = (if mp then map_get k t else js_get k t)"

text \<open>Reading a number-valued property of what a table lookup returned.\<close>

fun num_field :: "('a \<Rightarrow> num) \<Rightarrow> 'a looked \<Rightarrow> num" where
  "num_field f (Own d) = f d"
| "num_field f _ = Undefined"

section \<open>Read methods of the graph\<close>

definition hasNode :: "graph \<Rightarrow> key \<Rightarrow> bool" where
  "hasNode g node = table_has (g_map g) node (g_nodes g)"

text \<open>\<^verbatim>\<open>hasEdge\<close> called with one argument.\<close>

definition hasEdge1 :: "graph \<Rightarrow> key \<Rightarrow> bool" where
  "hasEdge1 g edge = table_has (g_map g) edge (g_edges g)"

text \<open>
  \<^verbatim>\<open>undirected(edge)\<close> returns the stored field: \<open>None\<close> stands for \<^verbatim>\<open>undefined\<close>, read
  from an inherited property.
\<close>

definition undirected :: "graph \<Rightarrow> key \<Rightarrow> error + bool option" where
  "undirected g edge =
     (if \<not> hasEdge1 g edge then Inl NotFoundGraphError
      else case table_get (g_map g) edge (g_edges g) of
             Own d \<Rightarrow> Inr (Some (e_undirected d))
           | Inherited \<Rightarrow> Inr None
           | Absent \<Rightarrow> Inl TypeError)"

definition directed :: "graph \<Rightarrow> key \<Rightarrow> error + bool" where
  "directed g edge =
     (if \<not> hasEdge1 g edge then Inl NotFoundGraphError
      else case undirected g edge of
             Inl e \<Rightarrow> Inl e
           | Inr u \<Rightarrow> Inr (u \<noteq> Some True))"

text \<open>
  \<^verbatim>\<open>hasDirectedEdge\<close> and \<^verbatim>\<open>hasUndirectedEdge\<close> called with one argument. The source
  returns \<^verbatim>\<open>this.map ? this._edges.has(edge) : edge in this._edges && this.directed(edge)\<close>,
  where \<^verbatim>\<open>&&\<close> binds tighter than the conditional operator.
\<close>

definition hasDirectedEdge1 :: "graph \<Rightarrow> key \<Rightarrow> error + bool" where
  "hasDirectedEdge1 g edge =
     (if g_map g then Inr (edge \<in> own_keys (g_edges g))
      else if js_in edge (g_edges g) then directed g edge else Inr False)"

definition hasUndirectedEdge1 :: "graph \<Rightarrow> key \<Rightarrow> error + bool option" where
  "hasUndirectedEdge1 g edge =
     (if g_map g then Inr (Some (edge \<in> own_keys (g_edges g)))
      else if js_in edge (g_edges g) then undirected g edge else Inr (Some False))"

text \<open>The degree methods. The second parameter defaults to \<^verbatim>\<open>true\<close>.\<close>

datatype flag_arg = DefaultFlag | Boolean bool | NonBoolean

fun flag_value :: "flag_arg \<Rightarrow> bool option" where
  "flag_value DefaultFlag = Some True"
| "flag_value (Boolean b) = Some b"
| "flag_value NonBoolean = None"

definition degree_query :: "(node_data looked \<Rightarrow> num) \<Rightarrow> graph \<Rightarrow> key \<Rightarrow> flag_arg \<Rightarrow> error + num" where
  "degree_query counters g node selfLoops =
     (case flag_value selfLoops of
        None \<Rightarrow> Inl InvalidArgumentsGraphError
      | Some sl \<Rightarrow>
          if \<not> hasNode g node then Inl NotFoundGraphError
          else case table_get (g_map g) node (g_nodes g) of
                 Absent \<Rightarrow> Inl TypeError
               | data \<Rightarrow> Inr (js_add (counters data) (if sl then num_field n_selfLoops data else Num 0)))"

definition inDegree :: "graph \<Rightarrow> key \<Rightarrow> flag_arg \<Rightarrow> error + num" where
  "inDegree = degree_query (num_field n_inDegree)"

definition outDegree :: "graph \<Rightarrow> key \<Rightarrow> flag_arg \<Rightarrow> error + num" where
  "outDegree = degree_query (num_field n_outDegree)"

definition directedDegree :: "graph \<Rightarrow> key \<Rightarrow> flag_arg \<Rightarrow> error + num" where
  "directedDegree =
     degree_query (\<lambda>data. js_add (num_field n_outDegree data) (num_field n_inDegree data))"

definition undirectedDegree :: "graph \<Rightarrow> key \<Rightarrow> flag_arg \<Rightarrow> error + num" where
  "undirectedDegree = degree_query (num_field n_undirectedDegree)"

definition degree :: "graph \<Rightarrow> key \<Rightarrow> flag_arg \<Rightarrow> error + num" where
  "degree =
     degree_query (\<lambda>data. js_add (js_add (num_field n_outDegree data) (num_field n_inDegree data))
                                (num_field n_undirectedDegree data))"


section \<open>The structure index (indices.js)\<close>

text \<open>
  The registers \<^verbatim>\<open>out\<close>, \<^verbatim>\<open>in\<close> and \<^verbatim>\<open>undirected\<close> of a node are plain objects. A
  node data object is named by the key under which \<^verbatim>\<open>graph._nodes\<close> stores it; an
  argument that is \<^verbatim>\<open>undefined\<close> is \<open>None\<close>.
\<close>

datatype slot = SOut | SIn | SUndirected

fun get_slot :: "slot \<Rightarrow> node_data \<Rightarrow> register option" where
  "get_slot SOut d = n_out d"
| "get_slot SIn d = n_in d"
| "get_slot SUndirected d = n_undirected d"

fun set_slot :: "slot \<Rightarrow> register \<Rightarrow> node_data \<Rightarrow> node_data" where
  "set_slot SOut r d = d\<lparr>n_out := Some r\<rparr>"
| "set_slot SIn r d = d\<lparr>n_in := Some r\<rparr>"
| "set_slot SUndirected r d = d\<lparr>n_undirected := Some r\<rparr>"

definition outKey :: "bool \<Rightarrow> slot" where
  "outKey undirected_arg = (if undirected_arg then SUndirected else SOut)"

definition inKey :: "bool \<Rightarrow> slot" where
  "inKey undirected_arg = (if undirected_arg then SUndirected else SIn)"

text \<open>The property name that a key argument denotes.\<close>

fun prop_name :: "key option \<Rightarrow> key" where
  "prop_name None = ''undefined''"
| "prop_name (Some k) = k"

text \<open>The register \<^verbatim>\<open>nodeData[slot]\<close> of a node data argument; reading it fails on \<^verbatim>\<open>undefined\<close>.\<close>

definition node_register :: "graph \<Rightarrow> key option \<Rightarrow> slot \<Rightarrow> register option" where
  "node_register g nd sl =
     (case nd of
        None \<Rightarrow> None
      | Some k \<Rightarrow> (case map_of (g_nodes g) k of None \<Rightarrow> None | Some d \<Rightarrow> get_slot sl d))"

definition write_register :: "graph \<Rightarrow> key \<Rightarrow> slot \<Rightarrow> register \<Rightarrow> graph" where
  "write_register g k sl r =
     (case map_of (g_nodes g) k of
        None \<Rightarrow> g
      | Some d \<Rightarrow> g\<lparr>g_nodes := AList.update k (set_slot sl r d) (g_nodes g)\<rparr>)"

text \<open>
  \<^verbatim>\<open>edgeOrSet.add(edgeData)\<close>: only a \<^verbatim>\<open>Set\<close> has the method; a set holds a value once.
\<close>

definition set_add :: "obj list \<Rightarrow> entry \<Rightarrow> entry \<Rightarrow> obj list option" where
  "set_add h s x =
     (case s of
        SetRef r \<Rightarrow>
          (case deref h r of
             Some (SetObj xs) \<Rightarrow> Some (h[r := SetObj (if x \<in> set xs then xs else xs @ [x])])
           | _ \<Rightarrow> None)
      | _ \<Rightarrow> None)"

definition updateStructureIndex ::
  "graph \<Rightarrow> bool \<Rightarrow> addr \<Rightarrow> key option \<Rightarrow> key option \<Rightarrow> key option \<Rightarrow> key option
     \<Rightarrow> error option \<times> graph" where
  "updateStructureIndex g undirected_arg edgeData source target sourceData targetData =
     (case node_register g sourceData (outKey undirected_arg) of
        None \<Rightarrow> (Some TypeError, g)
      | Some reg \<Rightarrow>
          let found = js_get (prop_name target) reg;
              (edgeOrSet, g1) =
                (case found of
                   Absent \<Rightarrow>
                     if g_multi g then
                       let (r, h) = alloc (g_heap g) (SetObj [])
                       in (SetRef r,
                           write_register (g\<lparr>g_heap := h\<rparr>) (the sourceData) (outKey undirected_arg)
                             (AList.update (prop_name target) (SetRef r) reg))
                     else
                       (EdgeRef edgeData,
                        write_register g (the sourceData) (outKey undirected_arg)
                          (AList.update (prop_name target) (EdgeRef edgeData) reg))
                 | Own e \<Rightarrow> (e, g)
                 | Inherited \<Rightarrow> (ProtoValue, g))
          in case (if g_multi g then set_add (g_heap g1) edgeOrSet (EdgeRef edgeData)
                   else Some (g_heap g1)) of
               None \<Rightarrow> (Some TypeError, g1)
             | Some h2 \<Rightarrow>
                 let g2 = g1\<lparr>g_heap := h2\<rparr>
                 in if source = target then (None, g2)
                    else case node_register g2 targetData (inKey undirected_arg) of
                           None \<Rightarrow> (Some TypeError, g2)
                         | Some treg \<Rightarrow>
                             (case js_get (prop_name source) treg of
                                Absent \<Rightarrow>
                                  (None, write_register g2 (the targetData) (inKey undirected_arg)
                                           (AList.update (prop_name source) edgeOrSet treg))
                              | _ \<Rightarrow> (None, g2)))"

text \<open>
  \<^verbatim>\<open>clearEdgeFromStructureIndex\<close> reads the two node data objects from
  \<^verbatim>\<open>edgeData.source\<close> and \<^verbatim>\<open>edgeData.target\<close> and their keys from the property
  \<^verbatim>\<open>key\<close> of each. An endpoint that is a primitive string has none of the properties
  \<^verbatim>\<open>key\<close>, \<^verbatim>\<open>out\<close>, \<^verbatim>\<open>in\<close>, \<^verbatim>\<open>undirected\<close>.
\<close>

datatype endpoint = NodeObject key | StringValue key

fun endpoint_key :: "endpoint \<Rightarrow> key option" where
  "endpoint_key (NodeObject k) = Some k"
| "endpoint_key (StringValue s) = None"

fun endpoint_data :: "endpoint \<Rightarrow> key option" where
  "endpoint_data (NodeObject k) = Some k"
| "endpoint_data (StringValue s) = None"

text \<open>\<^verbatim>\<open>set.size\<close> of a register value: only a \<^verbatim>\<open>Set\<close> has the property.\<close>

definition entry_size :: "obj list \<Rightarrow> entry \<Rightarrow> nat option" where
  "entry_size h e =
     (case e of
        SetRef r \<Rightarrow> (case deref h r of Some (SetObj xs) \<Rightarrow> Some (length xs) | _ \<Rightarrow> None)
      | _ \<Rightarrow> None)"

definition set_delete :: "obj list \<Rightarrow> entry \<Rightarrow> entry \<Rightarrow> obj list option" where
  "set_delete h s x =
     (case s of
        SetRef r \<Rightarrow>
          (case deref h r of
             Some (SetObj xs) \<Rightarrow> Some (h[r := SetObj (removeAll x xs)])
           | _ \<Rightarrow> None)
      | _ \<Rightarrow> None)"

text \<open>\<^verbatim>\<open>delete nodeData[slot][name]\<close>; it fails when the register is \<^verbatim>\<open>undefined\<close>.\<close>

definition delete_entry :: "graph \<Rightarrow> key option \<Rightarrow> slot \<Rightarrow> key \<Rightarrow> error option \<times> graph" where
  "delete_entry g nd sl name =
     (case node_register g nd sl of
        None \<Rightarrow> (Some TypeError, g)
      | Some reg \<Rightarrow> (None, write_register g (the nd) sl (AList.delete name reg)))"

definition clearEdgeFromStructureIndex ::
  "graph \<Rightarrow> bool \<Rightarrow> addr \<Rightarrow> endpoint \<Rightarrow> endpoint \<Rightarrow> error option \<times> graph" where
  "clearEdgeFromStructureIndex g undirected_arg edgeData edge_source edge_target =
     (let sourceData = endpoint_data edge_source;
          targetData = endpoint_data edge_target;
          source = prop_name (endpoint_key edge_source);
          target = prop_name (endpoint_key edge_target)
      in case node_register g sourceData (outKey undirected_arg) of
           None \<Rightarrow> (Some TypeError, g)
         | Some sourceIndex \<Rightarrow>
             let (err, g1) =
               (if js_in target sourceIndex then
                  if g_multi g then
                    (case js_get target sourceIndex of
                       Own s \<Rightarrow>
                         if entry_size (g_heap g) s = Some 1 then
                           (case delete_entry g sourceData (outKey undirected_arg) target of
                              (Some e, g') \<Rightarrow> (Some e, g')
                            | (None, g') \<Rightarrow> delete_entry g' targetData (inKey undirected_arg) source)
                         else
                           (case set_delete (g_heap g) s (EdgeRef edgeData) of
                              None \<Rightarrow> (Some TypeError, g)
                            | Some h \<Rightarrow> (None, g\<lparr>g_heap := h\<rparr>))
                     | _ \<Rightarrow> (Some TypeError, g))
                  else delete_entry g sourceData (outKey undirected_arg) target
                else (None, g))
             in case err of
                  Some e \<Rightarrow> (Some e, g1)
                | None \<Rightarrow>
                    if g_multi g then (None, g1)
                    else delete_entry g1 targetData (inKey undirected_arg) source)"

text \<open>
  \<^verbatim>\<open>clearStructureIndex\<close> and \<^verbatim>\<open>upgradeStructureIndexToMulti\<close> call
  \<^verbatim>\<open>graph._nodes.forEach\<close> and \<^verbatim>\<open>graph._nodes.get\<close>: methods of a \<^verbatim>\<open>Map\<close>. Without the
  \<^verbatim>\<open>map\<close> option the node table is a plain object, which has neither, and the call
  fails before it changes anything.

  \<^verbatim>\<open>clearStructureIndex\<close>: every register that exists is replaced by an empty one.
\<close>

definition clear_node_registers :: "node_data \<Rightarrow> node_data" where
  "clear_node_registers d =
     (let d1 = (if n_in d \<noteq> None then d\<lparr>n_in := Some [], n_out := Some []\<rparr> else d)
      in if n_undirected d1 \<noteq> None then d1\<lparr>n_undirected := Some []\<rparr> else d1)"

definition clearStructureIndex :: "graph \<Rightarrow> error option \<times> graph" where
  "clearStructureIndex g =
     (if \<not> g_map g then (Some TypeError, g)
      else (None, g\<lparr>g_nodes := map (\<lambda>(k, d). (k, clear_node_registers d)) (g_nodes g)\<rparr>))"

text \<open>
  \<^verbatim>\<open>upgradeStructureIndexToMulti\<close>. One step wraps the entry that \<^verbatim>\<open>node\<close> holds for
  \<^verbatim>\<open>neighbor\<close> in a new set and stores the same set in the neighbor's mirror register.
  The loops run over the keys the register had when the loop started; the body assigns
  to keys that exist already.
\<close>

definition wrap_entry :: "slot \<Rightarrow> slot \<Rightarrow> key \<Rightarrow> key \<Rightarrow> graph \<Rightarrow> error option \<times> graph" where
  "wrap_entry sl mirror node neighbor g =
     (case node_register g (Some node) sl of
        None \<Rightarrow> (Some TypeError, g)
      | Some reg \<Rightarrow>
          (case map_of reg neighbor of
             None \<Rightarrow> (Some TypeError, g)
           | Some e \<Rightarrow>
               let (r, h) = alloc (g_heap g) (SetObj [e]);
                   g1 = write_register (g\<lparr>g_heap := h\<rparr>) node sl (AList.update neighbor (SetRef r) reg)
               in case node_register g1 (Some neighbor) mirror of
                    None \<Rightarrow> (Some TypeError, g1)
                  | Some mreg \<Rightarrow>
                      (None, write_register g1 neighbor mirror (AList.update node (SetRef r) mreg))))"

fun upgrade_out :: "key \<Rightarrow> key list \<Rightarrow> graph \<Rightarrow> error option \<times> graph" where
  "upgrade_out node [] g = (None, g)"
| "upgrade_out node (neighbor # rest) g =
     (case wrap_entry SOut SIn node neighbor g of
        (Some e, g') \<Rightarrow> (Some e, g')
      | (None, g') \<Rightarrow> upgrade_out node rest g')"

fun upgrade_undirected :: "key \<Rightarrow> key list \<Rightarrow> graph \<Rightarrow> error option \<times> graph" where
  "upgrade_undirected node [] g = (None, g)"
| "upgrade_undirected node (neighbor # rest) g =
     (if neighbor > node then upgrade_undirected node rest g
      else case wrap_entry SUndirected SUndirected node neighbor g of
             (Some e, g') \<Rightarrow> (Some e, g')
           | (None, g') \<Rightarrow> upgrade_undirected node rest g')"

definition upgrade_node :: "key \<Rightarrow> graph \<Rightarrow> error option \<times> graph" where
  "upgrade_node node g =
     (case (case node_register g (Some node) SOut of
              None \<Rightarrow> (None, g)
            | Some reg \<Rightarrow> upgrade_out node (map fst reg) g) of
        (Some e, g') \<Rightarrow> (Some e, g')
      | (None, g') \<Rightarrow>
          (case node_register g' (Some node) SUndirected of
             None \<Rightarrow> (None, g')
           | Some reg \<Rightarrow> upgrade_undirected node (map fst reg) g'))"

fun upgrade_nodes :: "key list \<Rightarrow> graph \<Rightarrow> error option \<times> graph" where
  "upgrade_nodes [] g = (None, g)"
| "upgrade_nodes (node # rest) g =
     (case upgrade_node node g of
        (Some e, g') \<Rightarrow> (Some e, g')
      | (None, g') \<Rightarrow> upgrade_nodes rest g')"

definition upgradeStructureIndexToMulti :: "graph \<Rightarrow> error option \<times> graph" where
  "upgradeStructureIndexToMulti g =
     (if \<not> g_map g then (Some TypeError, g)
      else upgrade_nodes (map fst (g_nodes g)) g)"

section \<open>Index methods of the graph\<close>

text \<open>
  The graph imports the name \<^verbatim>\<open>INDICES\<close> from the indices module, and the indices
  module exports no such name: the binding is \<^verbatim>\<open>undefined\<close>, here \<open>None\<close>. Each index
  method starts with the guard \<^verbatim>\<open>if (!INDICES.has(name))\<close>, which fails on \<^verbatim>\<open>undefined\<close>
  with a \<^verbatim>\<open>TypeError\<close>; with a set of names it would raise \<^verbatim>\<open>InvalidArgument\<close> for a
  name that is not in the set. The methods below are called with the name \<^verbatim>\<open>'structure'\<close>.
\<close>

definition INDICES :: "key list option" where
  "INDICES = None"

definition indices_guard :: "key \<Rightarrow> error option" where
  "indices_guard name =
     (case INDICES of
        None \<Rightarrow> Some TypeError
      | Some names \<Rightarrow> if name \<in> set names then None else Some InvalidArgumentsGraphError)"

text \<open>
  \<^verbatim>\<open>_updateIndex\<close> calls \<^verbatim>\<open>updateStructureIndex(this, edge, data)\<close>: the edge key is
  bound to the parameter \<^verbatim>\<open>undirected\<close> (a string is truthy unless empty), the edge
  record to \<^verbatim>\<open>edgeData\<close>, and the last four parameters are \<^verbatim>\<open>undefined\<close>.
\<close>

definition private_updateIndex :: "graph \<Rightarrow> key \<Rightarrow> edge_data \<Rightarrow> error option \<times> graph" where
  "private_updateIndex g edge data =
     (case indices_guard ''structure'' of
        Some e \<Rightarrow> (Some e, g)
      | None \<Rightarrow>
          if \<not> g_computed g then (None, g)
          else updateStructureIndex g (edge \<noteq> []) (e_ref data) None None None None)"

text \<open>
  \<^verbatim>\<open>_clearEdgeFromIndex\<close> calls \<^verbatim>\<open>clearEdgeFromStructureIndex(this, edge, data)\<close>, where
  the fields \<^verbatim>\<open>source\<close> and \<^verbatim>\<open>target\<close> of the edge record are node keys.
\<close>

definition private_clearEdgeFromIndex :: "graph \<Rightarrow> key \<Rightarrow> edge_data \<Rightarrow> error option \<times> graph" where
  "private_clearEdgeFromIndex g edge data =
     (case indices_guard ''structure'' of
        Some e \<Rightarrow> (Some e, g)
      | None \<Rightarrow>
          if \<not> g_computed g then (None, g)
          else clearEdgeFromStructureIndex g (edge \<noteq> []) (e_ref data)
                 (StringValue (e_source data)) (StringValue (e_target data)))"

fun update_all :: "(key \<times> edge_data) list \<Rightarrow> graph \<Rightarrow> error option \<times> graph" where
  "update_all [] g = (None, g)"
| "update_all ((edge, data) # rest) g =
     (case private_updateIndex g edge data of
        (Some e, g') \<Rightarrow> (Some e, g')
      | (None, g') \<Rightarrow> update_all rest g')"

definition computeIndex :: "graph \<Rightarrow> error option \<times> graph" where
  "computeIndex g =
     (case indices_guard ''structure'' of
        Some e \<Rightarrow> (Some e, g)
      | None \<Rightarrow>
          if g_computed g then (None, g)
          else update_all (g_edges g) (g\<lparr>g_computed := True\<rparr>))"

text \<open>
  The test \<^verbatim>\<open>!!edges.size\<close> on what a register lookup returned, after \<^verbatim>\<open>if (!edges) return false\<close>.
\<close>

definition has_size :: "obj list \<Rightarrow> entry looked \<Rightarrow> bool" where
  "has_size h edges =
     (case edges of
        Own e \<Rightarrow> (case entry_size h e of Some n \<Rightarrow> n \<noteq> 0 | None \<Rightarrow> False)
      | _ \<Rightarrow> False)"

text \<open>
  \<^verbatim>\<open>register[target]\<close>, or \<^verbatim>\<open>register.get(target)\<close> with the \<^verbatim>\<open>map\<close> option: the
  registers are plain objects and have no method \<^verbatim>\<open>get\<close>.
\<close>

definition register_lookup :: "bool \<Rightarrow> register \<Rightarrow> key \<Rightarrow> error + entry looked" where
  "register_lookup mp reg target = (if mp then Inl TypeError else Inr (js_get target reg))"

text \<open>\<^verbatim>\<open>hasDirectedEdge\<close> and \<^verbatim>\<open>hasUndirectedEdge\<close> called with two arguments.\<close>

definition hasDirectedEdge2 :: "graph \<Rightarrow> key \<Rightarrow> key \<Rightarrow> (error + bool) \<times> graph" where
  "hasDirectedEdge2 g source target =
     (case computeIndex g of
        (Some e, g') \<Rightarrow> (Inl e, g')
      | (None, g') \<Rightarrow>
          if \<not> hasNode g' source \<or> \<not> hasNode g' target then (Inr False, g')
          else case table_get (g_map g') source (g_nodes g') of
                 Absent \<Rightarrow> (Inl TypeError, g')
               | Inherited \<Rightarrow> (Inr False, g')
               | Own nodeData \<Rightarrow>
                   (case n_out nodeData of
                      None \<Rightarrow> (Inr False, g')
                    | Some reg \<Rightarrow>
                        (case register_lookup (g_map g') reg target of
                           Inl e \<Rightarrow> (Inl e, g')
                         | Inr edges \<Rightarrow> (Inr (has_size (g_heap g') edges), g'))))"

definition hasUndirectedEdge2 :: "graph \<Rightarrow> key \<Rightarrow> key \<Rightarrow> (error + bool) \<times> graph" where
  "hasUndirectedEdge2 g source target =
     (case computeIndex g of
        (Some e, g') \<Rightarrow> (Inl e, g')
      | (None, g') \<Rightarrow>
          if \<not> hasNode g' source \<or> \<not> hasNode g' target then (Inr False, g')
          else case table_get (g_map g') source (g_nodes g') of
                 Absent \<Rightarrow> (Inl TypeError, g')
               | Inherited \<Rightarrow> (Inr False, g')
               | Own nodeData \<Rightarrow>
                   (case (case n_undirectedOut nodeData of
                            None \<Rightarrow> Inr Absent
                          | Some reg \<Rightarrow> register_lookup (g_map g') reg target) of
                      Inl e \<Rightarrow> (Inl e, g')
                    | Inr edges1 \<Rightarrow>
                        (case (case n_undirectedIn nodeData of
                                 None \<Rightarrow> Inr edges1
                               | Some reg \<Rightarrow>
                                   if edges1 = Absent then register_lookup (g_map g') reg target
                                   else Inr edges1) of
                           Inl e \<Rightarrow> (Inl e, g')
                         | Inr edges \<Rightarrow> (Inr (has_size (g_heap g') edges), g'))))"

section \<open>Mutation methods of the graph\<close>

text \<open>
  An attributes argument: left out, a plain object (by its address), or another value,
  which is falsy (\<^verbatim>\<open>undefined\<close>, \<^verbatim>\<open>null\<close>, \<^verbatim>\<open>0\<close>, the empty string, \<^verbatim>\<open>false\<close>) or truthy.
\<close>

datatype attr_arg = Omitted | PlainObject addr | Falsy | Truthy

text \<open>
  Modelled from the spec: the helper \<^verbatim>\<open>isPlainObject\<close> of the utilities module is not
  part of the sources; it tells whether the value is an attribute container, a plain object.
\<close>

fun isPlainObject :: "attr_arg \<Rightarrow> bool" where
  "isPlainObject (PlainObject a) = True"
| "isPlainObject _ = False"

fun truthy :: "attr_arg \<Rightarrow> bool" where
  "truthy (PlainObject a) = True"
| "truthy Truthy = True"
| "truthy _ = False"

text \<open>
  Modelled from the spec: the helper \<^verbatim>\<open>assign\<close> of the utilities module is not part of
  the sources. \<^verbatim>\<open>assign({}, attributes)\<close> copies the own properties of a plain object
  into the new object that the literal \<^verbatim>\<open>{}\<close> creates and returns that object; any
  other argument contributes nothing.
\<close>

definition own_properties :: "obj list \<Rightarrow> attr_arg \<Rightarrow> (string \<times> attr_value) list" where
  "own_properties h attributes =
     (case attributes of
        PlainObject a \<Rightarrow> (case deref h a of Some (Attrs kv) \<Rightarrow> kv | _ \<Rightarrow> [])
      | _ \<Rightarrow> [])"

definition assign :: "obj list \<Rightarrow> attr_arg \<Rightarrow> addr \<times> obj list" where
  "assign h attributes = alloc h (Attrs (own_properties h attributes))"

definition addNode :: "graph \<Rightarrow> key \<Rightarrow> attr_arg \<Rightarrow> error option \<times> graph" where
  "addNode g node attributes =
     (if attributes \<noteq> Omitted \<and> \<not> isPlainObject attributes then (Some InvalidArgumentsGraphError, g)
      else if hasNode g node then (Some UsageGraphError, g)
      else
        let (a, h) = assign (g_heap g) attributes;
            directed_fields = (g_type g = TMixed \<or> g_type g = TDirected);
            undirected_fields = (g_type g = TMixed \<or> g_type g = TUndirected);
            data = \<lparr>n_attributes = a, n_selfLoops = Num 0,
                    n_inDegree = (if directed_fields then Num 0 else Undefined),
                    n_outDegree = (if directed_fields then Num 0 else Undefined),
                    n_undirectedDegree = (if undirected_fields then Num 0 else Undefined),
                    n_out = None, n_in = None, n_undirected = None,
                    n_undirectedOut = None, n_undirectedIn = None\<rparr>
        in (None, g\<lparr>g_heap := h, g_nodes := AList.update node data (g_nodes g),
                     g_order := g_order g + 1\<rparr>))"

text \<open>
  A counter update \<^verbatim>\<open>nodeData.field++\<close> on what \<^verbatim>\<open>this._nodes[key]\<close> returned: it fails on
  \<^verbatim>\<open>undefined\<close>, and on an inherited value it writes to an object outside the graph.
\<close>

definition update_node :: "(node_data \<Rightarrow> node_data) \<Rightarrow> key \<Rightarrow> graph \<Rightarrow> error option \<times> graph" where
  "update_node f k g =
     (case table_get (g_map g) k (g_nodes g) of
        Absent \<Rightarrow> (Some TypeError, g)
      | Inherited \<Rightarrow> (None, g)
      | Own d \<Rightarrow> (None, g\<lparr>g_nodes := AList.update k (f d) (g_nodes g)\<rparr>))"

definition update_counters ::
  "(num \<Rightarrow> num) \<Rightarrow> bool \<Rightarrow> key \<Rightarrow> key \<Rightarrow> graph \<Rightarrow> error option \<times> graph" where
  "update_counters step undirected_arg source target g =
     (if source = target then
        update_node (\<lambda>d. d\<lparr>n_selfLoops := step (n_selfLoops d)\<rparr>) source g
      else if undirected_arg then
        (case update_node (\<lambda>d. d\<lparr>n_undirectedDegree := step (n_undirectedDegree d)\<rparr>) source g of
           (Some e, g1) \<Rightarrow> (Some e, g1)
         | (None, g1) \<Rightarrow>
             update_node (\<lambda>d. d\<lparr>n_undirectedDegree := step (n_undirectedDegree d)\<rparr>) target g1)
      else
        (case update_node (\<lambda>d. d\<lparr>n_outDegree := step (n_outDegree d)\<rparr>) source g of
           (Some e, g1) \<Rightarrow> (Some e, g1)
         | (None, g1) \<Rightarrow> update_node (\<lambda>d. d\<lparr>n_inDegree := step (n_inDegree d)\<rparr>) target g1))"

definition private_addEdge ::
  "graph \<Rightarrow> bool \<Rightarrow> key \<Rightarrow> key \<Rightarrow> key \<Rightarrow> attr_arg \<Rightarrow> error option \<times> graph" where
  "private_addEdge g undirected_arg edge source target attributes =
     (if \<not> undirected_arg \<and> g_type g = TUndirected then (Some UsageGraphError, g)
      else if undirected_arg \<and> g_type g = TDirected then (Some UsageGraphError, g)
      else if truthy attributes \<and> \<not> isPlainObject attributes then (Some InvalidArgumentsGraphError, g)
      else if \<not> hasNode g source then (Some NotFoundGraphError, g)
      else if \<not> hasNode g target then (Some NotFoundGraphError, g)
      else if hasEdge1 g edge then (Some UsageGraphError, g)
      else if \<not> g_allowSelfLoops g \<and> source = target then (Some UsageGraphError, g)
      else
        case (if g_multi g then (Inr False, g)
              else if undirected_arg then hasUndirectedEdge2 g source target
              else hasDirectedEdge2 g source target) of
          (Inl e, g0) \<Rightarrow> (Some e, g0)
        | (Inr True, g0) \<Rightarrow> (Some UsageGraphError, g0)
        | (Inr False, g0) \<Rightarrow>
            let (a, h) = assign (g_heap g0) attributes;
                (r, h') = alloc h EdgeRecord;
                data = \<lparr>e_ref = r, e_undirected = undirected_arg, e_attributes = a,
                        e_source = source, e_target = target\<rparr>;
                g1 = g0\<lparr>g_heap := h', g_edges := AList.update edge data (g_edges g0),
                        g_size := g_size g0 + 1\<rparr>
            in case update_counters js_inc undirected_arg source target g1 of
                 (Some e, g2) \<Rightarrow> (Some e, g2)
               | (None, g2) \<Rightarrow> private_updateIndex g2 edge data)"

definition addEdgeWithKey :: "graph \<Rightarrow> key \<Rightarrow> key \<Rightarrow> key \<Rightarrow> attr_arg \<Rightarrow> error option \<times> graph" where
  "addEdgeWithKey g edge source target attributes =
     private_addEdge g (g_type g = TUndirected) edge source target attributes"

definition addDirectedEdgeWithKey :: "graph \<Rightarrow> key \<Rightarrow> key \<Rightarrow> key \<Rightarrow> attr_arg \<Rightarrow> error option \<times> graph" where
  "addDirectedEdgeWithKey g edge source target attributes =
     private_addEdge g False edge source target attributes"

definition addUndirectedEdgeWithKey :: "graph \<Rightarrow> key \<Rightarrow> key \<Rightarrow> key \<Rightarrow> attr_arg \<Rightarrow> error option \<times> graph" where
  "addUndirectedEdgeWithKey g edge source target attributes =
     private_addEdge g True edge source target attributes"

text \<open>
  The key-less variants call the option \<^verbatim>\<open>edgeKeyGenerator\<close>, a function of the
  caller, with four arguments and pass its result on as the edge key.
\<close>

type_synonym edgeKeyGenerator = "bool \<Rightarrow> key \<Rightarrow> key \<Rightarrow> attr_arg \<Rightarrow> key"

definition addEdge :: "edgeKeyGenerator \<Rightarrow> graph \<Rightarrow> key \<Rightarrow> key \<Rightarrow> attr_arg \<Rightarrow> error option \<times> graph" where
  "addEdge gen g source target attributes =
     (let edge = gen (g_type g = TUndirected) source target attributes
      in private_addEdge g (g_type g = TUndirected) edge source target attributes)"

definition addDirectedEdge :: "edgeKeyGenerator \<Rightarrow> graph \<Rightarrow> key \<Rightarrow> key \<Rightarrow> attr_arg \<Rightarrow> error option \<times> graph" where
  "addDirectedEdge gen g source target attributes =
     (let edge = gen False source target attributes
      in private_addEdge g False edge source target attributes)"

definition addUndirectedEdge :: "edgeKeyGenerator \<Rightarrow> graph \<Rightarrow> key \<Rightarrow> key \<Rightarrow> attr_arg \<Rightarrow> error option \<times> graph" where
  "addUndirectedEdge gen g source target attributes =
     (let edge = gen False source target attributes
      in private_addEdge g True edge source target attributes)"

text \<open>
  \<^verbatim>\<open>dropEdge\<close>. When the lookup \<^verbatim>\<open>this._edges[edge]\<close> returns an inherited value, its
  \<^verbatim>\<open>source\<close> and \<^verbatim>\<open>target\<close> are \<^verbatim>\<open>undefined\<close>: they are equal, the node lookup reads the
  property named \<^verbatim>\<open>undefined\<close>, and \<^verbatim>\<open>_clearEdgeFromIndex\<close>, when it passes its guard
  and the index is computed, fails in the index function on \<^verbatim>\<open>edgeData.source.key\<close>.
\<close>

definition dropEdge :: "graph \<Rightarrow> key \<Rightarrow> error option \<times> graph" where
  "dropEdge g edge =
     (if \<not> hasEdge1 g edge then (Some NotFoundGraphError, g)
      else
        let data = table_get (g_map g) edge (g_edges g);
            g1 = g\<lparr>g_edges := AList.delete edge (g_edges g), g_size := g_size g - 1\<rparr>
        in case data of
             Absent \<Rightarrow> (Some TypeError, g1)
           | Inherited \<Rightarrow>
               (case update_node (\<lambda>d. d\<lparr>n_selfLoops := js_dec (n_selfLoops d)\<rparr>) ''undefined'' g1 of
                  (Some e, g2) \<Rightarrow> (Some e, g2)
                | (None, g2) \<Rightarrow>
                    (case indices_guard ''structure'' of
                       Some e \<Rightarrow> (Some e, g2)
                     | None \<Rightarrow> if \<not> g_computed g2 then (None, g2) else (Some TypeError, g2)))
           | Own d \<Rightarrow>
               (case update_counters js_dec (e_undirected d) (e_source d) (e_target d) g1 of
                  (Some e, g2) \<Rightarrow> (Some e, g2)
                | (None, g2) \<Rightarrow> private_clearEdgeFromIndex g2 edge d))"

text \<open>
  \<^verbatim>\<open>dropNode\<close>. The method \<^verbatim>\<open>edges(node)\<close> is attached by the edge iteration module,
  which is not part of the sources: it is a parameter, a function that returns the list
  of edge keys or fails.
\<close>

type_synonym edges_method = "graph \<Rightarrow> key \<Rightarrow> error + key list"

fun drop_all :: "key list \<Rightarrow> graph \<Rightarrow> error option \<times> graph" where
  "drop_all [] g = (None, g)"
| "drop_all (edge # rest) g =
     (case dropEdge g edge of
        (Some e, g') \<Rightarrow> (Some e, g')
      | (None, g') \<Rightarrow> drop_all rest g')"

definition dropNode :: "edges_method \<Rightarrow> graph \<Rightarrow> key \<Rightarrow> error option \<times> graph" where
  "dropNode edges_of g node =
     (if \<not> hasNode g node then (Some NotFoundGraphError, g)
      else case edges_of g node of
             Inl e \<Rightarrow> (Some e, g)
           | Inr edges \<Rightarrow>
               (case drop_all edges g of
                  (Some e, g') \<Rightarrow> (Some e, g')
                | (None, g') \<Rightarrow>
                    (None, g'\<lparr>g_nodes := AList.delete node (g_nodes g'),
                               g_order := g_order g' - 1\<rparr>)))"

definition clear :: "graph \<Rightarrow> graph" where
  "clear g = g\<lparr>g_edges := [], g_nodes := [], g_order := 0, g_size := 0, g_computed := False\<rparr>"

section \<open>Calls and histories\<close>

text \<open>
  The mutation methods as values, so that a statement can range over all of them. The
  key generator and the method \<^verbatim>\<open>edges\<close> are those of the graph at hand.
\<close>

datatype operation =
    AddNode key attr_arg
  | AddEdgeWithKey key key key attr_arg
  | AddDirectedEdgeWithKey key key key attr_arg
  | AddUndirectedEdgeWithKey key key key attr_arg
  | AddEdge key key attr_arg
  | AddDirectedEdge key key attr_arg
  | AddUndirectedEdge key key attr_arg
  | DropEdge key
  | DropNode key

fun apply_op :: "edgeKeyGenerator \<Rightarrow> edges_method \<Rightarrow> graph \<Rightarrow> operation \<Rightarrow> error option \<times> graph" where
  "apply_op gen edges_of g (AddNode node a) = addNode g node a"
| "apply_op gen edges_of g (AddEdgeWithKey e s t a) = addEdgeWithKey g e s t a"
| "apply_op gen edges_of g (AddDirectedEdgeWithKey e s t a) = addDirectedEdgeWithKey g e s t a"
| "apply_op gen edges_of g (AddUndirectedEdgeWithKey e s t a) = addUndirectedEdgeWithKey g e s t a"
| "apply_op gen edges_of g (AddEdge s t a) = addEdge gen g s t a"
| "apply_op gen edges_of g (AddDirectedEdge s t a) = addDirectedEdge gen g s t a"
| "apply_op gen edges_of g (AddUndirectedEdge s t a) = addUndirectedEdge gen g s t a"
| "apply_op gen edges_of g (DropEdge e) = dropEdge g e"
| "apply_op gen edges_of g (DropNode node) = dropNode edges_of g node"

text \<open>
  A call of a public method that changes the graph: a mutation, \<^verbatim>\<open>clear\<close>,
  \<^verbatim>\<open>computeIndex('structure')\<close>, or an existence query with two arguments, which
  calls \<^verbatim>\<open>computeIndex\<close> first. A history is a list of calls; a caller that catches an error goes
  on with the graph as the failed call left it.
\<close>

datatype call =
    Mutation operation
  | Clear
  | ComputeIndex
  | HasDirectedEdge key key
  | HasUndirectedEdge key key

fun step :: "edgeKeyGenerator \<Rightarrow> edges_method \<Rightarrow> graph \<Rightarrow> call \<Rightarrow> graph" where
  "step gen edges_of g (Mutation op) = snd (apply_op gen edges_of g op)"
| "step gen edges_of g Clear = clear g"
| "step gen edges_of g ComputeIndex = snd (computeIndex g)"
| "step gen edges_of g (HasDirectedEdge s t) = snd (hasDirectedEdge2 g s t)"
| "step gen edges_of g (HasUndirectedEdge s t) = snd (hasUndirectedEdge2 g s t)"

definition run :: "edgeKeyGenerator \<Rightarrow> edges_method \<Rightarrow> graph \<Rightarrow> call list \<Rightarrow> graph" where
  "run gen edges_of g calls = foldl (step gen edges_of) g calls"

text \<open>
  What the claims assume of the method \<^verbatim>\<open>edges(node)\<close>: the keys it lists are keys of
  the edge table, each listed once.
\<close>

definition lists_existing_edges :: "edges_method \<Rightarrow> graph \<Rightarrow> key \<Rightarrow> bool" where
  "lists_existing_edges edges_of g node \<longleftrightarrow>
     (case edges_of g node of
        Inl e \<Rightarrow> True
      | Inr es \<Rightarrow> distinct es \<and> list_all (\<lambda>e. e \<in> own_keys (g_edges g)) es)"

text \<open>
  For an add operation: the attributes argument, and the address that the record stored
  under the operation's key holds as its attributes.
\<close>

fun attributes_arg :: "operation \<Rightarrow> attr_arg" where
  "attributes_arg (AddNode node a) = a"
| "attributes_arg (AddEdgeWithKey e s t a) = a"
| "attributes_arg (AddDirectedEdgeWithKey e s t a) = a"
| "attributes_arg (AddUndirectedEdgeWithKey e s t a) = a"
| "attributes_arg (AddEdge s t a) = a"
| "attributes_arg (AddDirectedEdge s t a) = a"
| "attributes_arg (AddUndirectedEdge s t a) = a"
| "attributes_arg _ = Omitted"

definition edge_attributes :: "graph \<Rightarrow> key \<Rightarrow> addr option" where
  "edge_attributes g e = map_option e_attributes (map_of (g_edges g) e)"

fun stored_attributes :: "edgeKeyGenerator \<Rightarrow> graph \<Rightarrow> operation \<Rightarrow> addr option" where
  "stored_attributes gen g (AddNode node a) = map_option n_attributes (map_of (g_nodes g) node)"
| "stored_attributes gen g (AddEdgeWithKey e s t a) = edge_attributes g e"
| "stored_attributes gen g (AddDirectedEdgeWithKey e s t a) = edge_attributes g e"
| "stored_attributes gen g (AddUndirectedEdgeWithKey e s t a) = edge_attributes g e"
| "stored_attributes gen g (AddEdge s t a) = edge_attributes g (gen (g_type g = TUndirected) s t a)"
| "stored_attributes gen g (AddDirectedEdge s t a) = edge_attributes g (gen False s t a)"
| "stored_attributes gen g (AddUndirectedEdge s t a) = edge_attributes g (gen False s t a)"
| "stored_attributes gen g _ = None"

text \<open>
  An add operation that passes every check made before the record is created. An edge
  is created on a multi graph only: without the \<^verbatim>\<open>multi\<close> option the existence query
  between the two nodes comes first and fails.
\<close>

definition admits_edge :: "graph \<Rightarrow> bool \<Rightarrow> key \<Rightarrow> key \<Rightarrow> key \<Rightarrow> attr_arg \<Rightarrow> bool" where
  "admits_edge g undirected_arg edge source target attributes \<longleftrightarrow>
     (undirected_arg \<or> g_type g \<noteq> TUndirected)
     \<and> (\<not> undirected_arg \<or> g_type g \<noteq> TDirected)
     \<and> (isPlainObject attributes \<or> \<not> truthy attributes)
     \<and> hasNode g source \<and> hasNode g target \<and> \<not> hasEdge1 g edge
     \<and> (g_allowSelfLoops g \<or> source \<noteq> target)
     \<and> g_multi g"

fun admitted :: "edgeKeyGenerator \<Rightarrow> graph \<Rightarrow> operation \<Rightarrow> bool" where
  "admitted gen g (AddNode node a) = ((a = Omitted \<or> isPlainObject a) \<and> \<not> hasNode g node)"
| "admitted gen g (AddEdgeWithKey e s t a) = admits_edge g (g_type g = TUndirected) e s t a"
| "admitted gen g (AddDirectedEdgeWithKey e s t a) = admits_edge g False e s t a"
| "admitted gen g (AddUndirectedEdgeWithKey e s t a) = admits_edge g True e s t a"
| "admitted gen g (AddEdge s t a) =
     admits_edge g (g_type g = TUndirected) (gen (g_type g = TUndirected) s t a) s t a"
| "admitted gen g (AddDirectedEdge s t a) = admits_edge g False (gen False s t a) s t a"
| "admitted gen g (AddUndirectedEdge s t a) = admits_edge g True (gen False s t a) s t a"
| "admitted gen g _ = False"

section \<open>Observations of the index\<close>

text \<open>
  The entry that the register \<open>sl\<close> of node \<open>A\<close> holds under \<open>B\<close>, and the keys of a
  register in the order of the loop over them.
\<close>

definition ent :: "graph \<Rightarrow> slot \<Rightarrow> key \<Rightarrow> key \<Rightarrow> entry option" where
  "ent g sl A B = (case node_register g (Some A) sl of None \<Rightarrow> None | Some reg \<Rightarrow> map_of reg B)"










text \<open>The order is the number of node keys and the size the number of edge keys.\<close>

definition counts_ok :: "graph \<Rightarrow> bool" where
  "counts_ok g \<longleftrightarrow> g_order g = int (card (own_keys (g_nodes g)))
                 \<and> g_size g = int (card (own_keys (g_edges g)))"

section \<open>Scenarios\<close>

text \<open>A graph with the given options after \<^verbatim>\<open>addNode('a')\<close> and \<^verbatim>\<open>addNode('b')\<close>.\<close>

definition two_nodes :: "graph_type \<Rightarrow> bool \<Rightarrow> bool \<Rightarrow> bool \<Rightarrow> graph" where
  "two_nodes ty multi loops mp =
     snd (addNode (snd (addNode (new_graph ty multi loops mp []) ''a'' Omitted)) ''b'' Omitted)"

text \<open>A key generator that answers with a key that tells its first argument.\<close>

definition kind_generator :: edgeKeyGenerator where
  "kind_generator isUndirected source target attributes = (if isUndirected then ''u'' else ''d'')"

text \<open>
  A node whose three registers exist, and a graph given by its options \<^verbatim>\<open>multi\<close> and
  \<^verbatim>\<open>map\<close>, its node table and its store: the shape the functions of indices.js work on.
\<close>

definition index_node :: "register \<Rightarrow> register \<Rightarrow> register \<Rightarrow> node_data" where
  "index_node out_reg in_reg undirected_reg =
     \<lparr>n_attributes = 0, n_selfLoops = Num 0, n_inDegree = Num 0, n_outDegree = Num 0,
      n_undirectedDegree = Num 0, n_out = Some out_reg, n_in = Some in_reg,
      n_undirected = Some undirected_reg, n_undirectedOut = None, n_undirectedIn = None\<rparr>"

definition indexed_graph :: "bool \<Rightarrow> bool \<Rightarrow> (key \<times> node_data) list \<Rightarrow> obj list \<Rightarrow> graph" where
  "indexed_graph multi mp nodes h =
     \<lparr>g_type = TMixed, g_multi = multi, g_allowSelfLoops = True, g_map = mp,
      g_order = int (length nodes), g_size = 0, g_nodes = nodes, g_edges = [],
      g_computed = True, g_heap = h\<rparr>"

text \<open>
  Modelled from the spec: the method \<^verbatim>\<open>edges(node)\<close> of the edge iteration module, which
  is not part of the sources, as the keys of the edges incident to the node.
\<close>

definition incident_edges :: edges_method where
  "incident_edges g node =
     Inr (map fst (filter (\<lambda>(k, d). e_source d = node \<or> e_target d = node) (g_edges g)))"

section \<open>Edge existence by key\<close>

text \<open>
  Claim C7. With one argument, \<^verbatim>\<open>hasDirectedEdge(k)\<close> should be true exactly when \<open>k\<close> is
  an edge whose record is directed. On a graph with the \<^verbatim>\<open>map\<close> option the conditional
  operator returns \<^verbatim>\<open>this._edges.has(edge)\<close> alone: after
  \<^verbatim>\<open>addUndirectedEdgeWithKey('e', 'a', 'b')\<close> on a mixed multi graph with the option,
  the record of \<open>e\<close> is undirected and \<^verbatim>\<open>hasDirectedEdge('e')\<close> is true. Without the
  option the same calls answer false. (The addition itself stores the record and then
  fails in \<^verbatim>\<open>_updateIndex\<close>, as every addition does.)
\<close>

theorem hasDirectedEdge_map_ignores_kind:
  "(let (r, g) = addUndirectedEdgeWithKey (two_nodes TMixed True True True) ''e'' ''a'' ''b'' Omitted
    in r = Some TypeError \<and> undirected g ''e'' = Inr (Some True) \<and> hasDirectedEdge1 g ''e'' = Inr True)
   \<and> (let (r, g) = addUndirectedEdgeWithKey (two_nodes TMixed True True False) ''e'' ''a'' ''b'' Omitted
    in r = Some TypeError \<and> undirected g ''e'' = Inr (Some True) \<and> hasDirectedEdge1 g ''e'' = Inr False)"
  by code_simp

theorem hasDirectedEdge_map_ignores_kind_witness:
  "hasDirectedEdge1
     (snd (addUndirectedEdgeWithKey (two_nodes TMixed True True True) ''e'' ''a'' ''b'' Omitted)) ''e''
   = Inr True"
  using hasDirectedEdge_map_ignores_kind by (simp add: case_prod_beta Let_def)

section \<open>Generated edge keys\<close>

text \<open>
  Claim C9. The key-less variants should call the generator with the kind of the edge
  being added. \<^verbatim>\<open>addUndirectedEdge\<close> passes \<^verbatim>\<open>false\<close>: with a generator that answers
  \<open>u\<close> for an undirected edge and \<open>d\<close> for a directed one, the undirected edge it adds
  is stored under \<open>d\<close>. (The addition itself stores the record and then fails in
  \<^verbatim>\<open>_updateIndex\<close>, as every addition does.)
\<close>

theorem addUndirectedEdge_passes_false:
  "(let (r, g) = addUndirectedEdge kind_generator (two_nodes TMixed True True False) ''a'' ''b'' Omitted
    in r = Some TypeError \<and> map fst (g_edges g) = [''d''] \<and> undirected g ''d'' = Inr (Some True))"
  by code_simp

theorem addUndirectedEdge_passes_false_witness:
  "map fst (g_edges (snd (addUndirectedEdge kind_generator (two_nodes TMixed True True False)
                            ''a'' ''b'' Omitted))) = [''d'']"
  using addUndirectedEdge_passes_false by (simp add: case_prod_beta Let_def)

section \<open>Degrees\<close>

text \<open>
  Claim C5. A degree query should return the sum of the counters the node stores. A node
  of a directed graph stores no \<^verbatim>\<open>undirectedDegree\<close> and a node of an undirected graph
  no \<^verbatim>\<open>inDegree\<close> or \<^verbatim>\<open>outDegree\<close>; the sums read them all the same and are
  \<^verbatim>\<open>NaN\<close>, where a mixed graph answers \<open>0\<close>.
\<close>

theorem degree_NaN_on_typed_graphs:
  "degree (two_nodes TDirected False True False) ''a'' DefaultFlag = Inr NaN
   \<and> degree (two_nodes TUndirected False True False) ''a'' (Boolean False) = Inr NaN
   \<and> undirectedDegree (two_nodes TDirected False True False) ''a'' DefaultFlag = Inr NaN
   \<and> inDegree (two_nodes TUndirected False True False) ''a'' DefaultFlag = Inr NaN
   \<and> degree (two_nodes TMixed False True False) ''a'' DefaultFlag = Inr (Num 0)"
  by code_simp

theorem degree_NaN_on_typed_graphs_witness:
  "degree (two_nodes TDirected False True False) ''a'' DefaultFlag = Inr NaN"
  using degree_NaN_on_typed_graphs by simp

section \<open>Order and size\<close>

text \<open>
  Claim C4. The size should equal the number of keys of the edge table after every
  operation. Without the \<^verbatim>\<open>map\<close> option \<^verbatim>\<open>dropEdge\<close> tests the key with the operator
  \<^verbatim>\<open>in\<close>, which is true of \<open>toString\<close> on an empty table: the call on a new graph
  passes the test, decrements the size and then fails with a \<^verbatim>\<open>TypeError\<close>, leaving
  size \<open>-1\<close> and no edge. With the option the same call fails with \<^verbatim>\<open>NotFound\<close>.
\<close>

theorem dropEdge_inherited_key_breaks_size:
  "(let (r, g) = dropEdge (new_graph TMixed False True False []) ''toString''
    in r = Some TypeError \<and> g_size g = - 1 \<and> g_edges g = [])
   \<and> dropEdge (new_graph TMixed False True True []) ''toString''
       = (Some NotFoundGraphError, new_graph TMixed False True True [])"
  by code_simp

theorem dropEdge_inherited_key_breaks_size_witness:
  "g_size (snd (dropEdge (new_graph TMixed False True False []) ''toString'')) = - 1"
  using dropEdge_inherited_key_breaks_size by (simp add: case_prod_beta Let_def)

section \<open>The index as the graph drives it\<close>

text \<open>
  Claim C1. After \<^verbatim>\<open>computeIndex\<close> the existence query of the matching kind should be
  true of every edge, and false again after \<^verbatim>\<open>dropEdge\<close>. The guard
  \<^verbatim>\<open>INDICES.has(name)\<close> reads a name that the indices module does not export, so it
  fails with a \<^verbatim>\<open>TypeError\<close> before the flag is read or set. On a directed multi graph
  \<^verbatim>\<open>addDirectedEdgeWithKey('e1', 'a', 'b')\<close> stores the directed record of \<open>e1\<close> and
  fails in \<^verbatim>\<open>_updateIndex\<close>; \<^verbatim>\<open>computeIndex\<close> then fails and leaves the graph as it
  was, the flag unset; the query \<^verbatim>\<open>hasDirectedEdge('a', 'b')\<close> fails the same way
  instead of answering true; \<^verbatim>\<open>dropEdge('e1')\<close> removes the record and fails in
  \<^verbatim>\<open>_clearEdgeFromIndex\<close>; and the query that follows fails instead of answering
  false.
\<close>

theorem computeIndex_raises_and_query_raises:
  "(let (r1, g1) = addDirectedEdgeWithKey (two_nodes TDirected True True False) ''e1'' ''a'' ''b'' Omitted;
        (r2, g2) = computeIndex g1;
        (r3, g3) = dropEdge g2 ''e1''
    in r1 = Some TypeError \<and> map fst (g_edges g1) = [''e1''] \<and> directed g1 ''e1'' = Inr True
       \<and> r2 = Some TypeError \<and> g2 = g1 \<and> \<not> g_computed g2
       \<and> hasDirectedEdge2 g2 ''a'' ''b'' = (Inl TypeError, g2)
       \<and> r3 = Some TypeError \<and> g_edges g3 = [] \<and> g_size g3 = 0
       \<and> hasDirectedEdge2 g3 ''a'' ''b'' = (Inl TypeError, g3))"
  by code_simp

theorem computeIndex_raises_and_query_raises_witness:
  "fst (computeIndex (snd (addDirectedEdgeWithKey (two_nodes TDirected True True False)
                             ''e1'' ''a'' ''b'' Omitted))) = Some TypeError"
  using computeIndex_raises_and_query_raises by (simp add: case_prod_beta Let_def)

section \<open>The index methods always fail\<close>

text \<open>
  Each index method of the graph fails at its guard with a \<^verbatim>\<open>TypeError\<close> and leaves the
  graph as it was, so the flag of the index is never set, and so do the two existence
  queries that start with \<^verbatim>\<open>computeIndex\<close>.
\<close>

lemma indices_guard_raises: "indices_guard name = Some TypeError"
  by (simp add: indices_guard_def INDICES_def)

lemma computeIndex_raises: "computeIndex g = (Some TypeError, g)"
  by (simp add: computeIndex_def indices_guard_raises)

lemma private_updateIndex_raises: "private_updateIndex g e d = (Some TypeError, g)"
  by (simp add: private_updateIndex_def indices_guard_raises)

lemma private_clearEdgeFromIndex_raises: "private_clearEdgeFromIndex g e d = (Some TypeError, g)"
  by (simp add: private_clearEdgeFromIndex_def indices_guard_raises)

lemma hasDirectedEdge2_raises: "hasDirectedEdge2 g s t = (Inl TypeError, g)"
  by (simp add: hasDirectedEdge2_def computeIndex_raises)

lemma hasUndirectedEdge2_raises: "hasUndirectedEdge2 g s t = (Inl TypeError, g)"
  by (simp add: hasUndirectedEdge2_def computeIndex_raises)

lemma update_node_error: "update_node f k g = (Some e, g') \<Longrightarrow> e = TypeError"
  by (auto simp: update_node_def split: looked.splits)

lemma update_counters_error: "update_counters st u s t g = (Some e, g') \<Longrightarrow> e = TypeError"
  by (auto simp: update_counters_def split: if_splits prod.splits option.splits dest: update_node_error)

lemma private_addEdge_failure:
  assumes "private_addEdge g u e s t a = (Some err, g')" and "err \<noteq> TypeError"
  shows "g' = g"
  using assms unfolding private_addEdge_def
  by (auto simp: Let_def hasDirectedEdge2_raises hasUndirectedEdge2_raises
                 private_updateIndex_raises
           split: if_splits prod.splits option.splits
           dest: update_counters_error)

lemma own_keys_delete: "own_keys (AList.delete k al) = own_keys al - {k}"
  by (induction al) (auto simp: own_keys_def)

lemma own_keys_update: "own_keys (AList.update k v al) = insert k (own_keys al)"
  by (simp add: own_keys_def dom_update)

lemma update_node_frame: "update_node f k g = (r, g') \<Longrightarrow> \<exists>ns. g' = g\<lparr>g_nodes := ns\<rparr>"
  unfolding update_node_def
  by (cases "table_get (g_map g) k (g_nodes g)") (auto intro: exI[of _ "g_nodes g"])

lemma update_counters_frame:
  assumes "update_counters st u s t g = (r, g')"
  shows "\<exists>ns. g' = g\<lparr>g_nodes := ns\<rparr>"
proof -
  have two: "\<exists>ns. g' = g\<lparr>g_nodes := ns\<rparr>"
    if a: "(case update_node f1 s g of (Some e, g1) \<Rightarrow> (Some e, g1) | (None, g1) \<Rightarrow> update_node f2 t g1) = (r, g')"
    for f1 f2
  proof (cases "update_node f1 s g")
    case (Pair r1 g1)
    then obtain ns1 where g1: "g1 = g\<lparr>g_nodes := ns1\<rparr>" using update_node_frame by blast
    show ?thesis
    proof (cases r1)
      case None
      then have "update_node f2 t g1 = (r, g')" using a Pair by simp
      then obtain ns2 where "g' = g1\<lparr>g_nodes := ns2\<rparr>" using update_node_frame by blast
      then show ?thesis using g1 by auto
    next
      case (Some e)
      then show ?thesis using a Pair g1 by auto
    qed
  qed
  show ?thesis
  proof (cases "s = t")
    case True
    then show ?thesis using assms update_node_frame unfolding update_counters_def by auto
  next
    case False
    then show ?thesis using assms two unfolding update_counters_def by (cases u) auto
  qed
qed

lemma dropEdge_failure:
  "dropEdge g e = (Some err, g') \<Longrightarrow> err \<noteq> TypeError \<Longrightarrow> g' = g \<and> \<not> hasEdge1 g e"
  unfolding dropEdge_def
  by (auto simp: Let_def private_clearEdgeFromIndex_raises indices_guard_raises
           split: if_splits looked.splits prod.splits option.splits
           dest: update_node_error update_counters_error)

lemma dropEdge_frame:
  assumes "hasEdge1 g e" and "dropEdge g e = (r, g')"
  shows "\<exists>ns. g' = g\<lparr>g_edges := AList.delete e (g_edges g), g_size := g_size g - 1, g_nodes := ns\<rparr>"
proof -
  let ?g1 = "g\<lparr>g_edges := AList.delete e (g_edges g), g_size := g_size g - 1\<rparr>"
  show ?thesis
  proof (cases "table_get (g_map g) e (g_edges g)")
    case Absent
    then have "g' = ?g1" using assms unfolding dropEdge_def by (simp add: Let_def)
    then show ?thesis by (auto intro: exI[of _ "g_nodes g"])
  next
    case Inherited
    let ?u = "update_node (\<lambda>d. d\<lparr>n_selfLoops := js_dec (n_selfLoops d)\<rparr>) ''undefined'' ?g1"
    obtain r2 g2 where u: "?u = (r2, g2)" by (cases ?u)
    then obtain ns where g2: "g2 = ?g1\<lparr>g_nodes := ns\<rparr>" using update_node_frame by blast
    have "g' = g2" using assms Inherited u unfolding dropEdge_def
      by (auto simp: Let_def indices_guard_raises split: option.splits if_splits)
    then show ?thesis using g2 by auto
  next
    case (Own d)
    let ?u = "update_counters js_dec (e_undirected d) (e_source d) (e_target d) ?g1"
    obtain r2 g2 where u: "?u = (r2, g2)" by (cases ?u)
    then obtain ns where g2: "g2 = ?g1\<lparr>g_nodes := ns\<rparr>" using update_counters_frame by blast
    have "g' = g2" using assms Own u unfolding dropEdge_def
      by (auto simp: Let_def private_clearEdgeFromIndex_raises split: option.splits if_splits)
    then show ?thesis using g2 by auto
  qed
qed


lemma hasEdge1_own: "e \<in> own_keys (g_edges g) \<Longrightarrow> hasEdge1 g e"
  by (simp add: hasEdge1_def table_has_def js_in_def)

lemma drop_all_error:
  "distinct es \<Longrightarrow> set es \<subseteq> own_keys (g_edges g) \<Longrightarrow> drop_all es g = (Some err, g')
   \<Longrightarrow> err = TypeError"
proof (induction es arbitrary: g)
  case Nil
  then show ?case by simp
next
  case (Cons e es)
  have he: "hasEdge1 g e" using Cons.prems(2) by (simp add: hasEdge1_own)
  obtain r g1 where d: "dropEdge g e = (r, g1)" by (cases "dropEdge g e")
  from dropEdge_frame[OF he d] have keys: "own_keys (g_edges g1) = own_keys (g_edges g) - {e}"
    by (auto simp: own_keys_delete)
  show ?case
  proof (cases r)
    case None
    then have "drop_all es g1 = (Some err, g')" using Cons.prems(3) d by simp
    moreover have "set es \<subseteq> own_keys (g_edges g1)" using Cons.prems(1,2) keys by auto
    ultimately show ?thesis using Cons.IH Cons.prems(1) by simp
  next
    case (Some x)
    then have "x = err" using Cons.prems(3) d by simp
    then show ?thesis using dropEdge_failure[of g e err g1] d Some he by auto
  qed
qed

lemma dropNode_failure:
  assumes "lists_existing_edges edges_of g node"
    and "dropNode edges_of g node = (Some err, g')" and "err \<noteq> TypeError"
  shows "g' = g"
proof (cases "hasNode g node")
  case False
  then show ?thesis using assms(2) by (simp add: dropNode_def)
next
  case True
  show ?thesis
  proof (cases "edges_of g node")
    case (Inl x)
    then show ?thesis using assms(2) True by (simp add: dropNode_def)
  next
    case (Inr es)
    then have wf: "distinct es" "set es \<subseteq> own_keys (g_edges g)"
      using assms(1) by (auto simp: lists_existing_edges_def list_all_iff)
    obtain r g1 where d: "drop_all es g = (r, g1)" by (cases "drop_all es g")
    show ?thesis
    proof (cases r)
      case None
      then show ?thesis using assms(2) True Inr d by (simp add: dropNode_def)
    next
      case (Some x)
      then have "x = TypeError" using drop_all_error[OF wf] d by blast
      then show ?thesis using assms(2,3) True Inr d Some by (simp add: dropNode_def)
    qed
  qed
qed

lemma addNode_failure: "addNode g node a = (Some err, g') \<Longrightarrow> g' = g"
  by (auto simp: addNode_def Let_def split: if_splits prod.splits)

lemma apply_op_failure:
  assumes "\<And>node. op = DropNode node \<Longrightarrow> lists_existing_edges edges_of g node"
    and "apply_op gen edges_of g op = (Some err, g')" and "err \<noteq> TypeError"
  shows "g' = g"
proof (cases op)
  case (AddNode k a)
  then show ?thesis using assms(2) addNode_failure by simp
next
  case (DropEdge e)
  then show ?thesis using assms(2,3) dropEdge_failure by auto
next
  case (DropNode node)
  then show ?thesis using assms dropNode_failure by auto
qed (use assms private_addEdge_failure in
      \<open>auto simp: addEdgeWithKey_def addDirectedEdgeWithKey_def addUndirectedEdgeWithKey_def
                  addEdge_def addDirectedEdge_def addUndirectedEdge_def Let_def\<close>)

section \<open>Order and size with the map option\<close>

text \<open>
  With the \<^verbatim>\<open>map\<close> option the tables are \<^verbatim>\<open>Map\<close>s and a key is found only when it is
  stored: every history of calls keeps the order equal to the number of node keys and
  the size equal to the number of edge keys, also across calls that fail.
\<close>

lemma finite_own_keys [simp]: "finite (own_keys t)"
  by (simp add: own_keys_def)

lemma table_get_Own: "table_get mp k t = Own d \<Longrightarrow> (k, d) \<in> set t"
  by (auto simp: table_get_def map_get_def js_get_def split: if_splits option.splits dest: map_of_SomeD)

lemma table_get_Own_key: "table_get mp k t = Own d \<Longrightarrow> k \<in> set (map fst t)"
  by (drule table_get_Own) force

lemma update_node_keys:
  assumes "update_node f k g = (r, g')"
  shows "own_keys (g_nodes g') = own_keys (g_nodes g)"
proof (cases "table_get (g_map g) k (g_nodes g)")
  case (Own d)
  then have "k \<in> own_keys (g_nodes g)" using table_get_Own_key by (fastforce simp: own_keys_def)
  then show ?thesis using assms Own by (auto simp: update_node_def own_keys_update)
qed (use assms in \<open>auto simp: update_node_def\<close>)

lemma update_counters_keys:
  assumes "update_counters st u s t g = (r, g')"
  shows "own_keys (g_nodes g') = own_keys (g_nodes g)"
proof -
  have two: "own_keys (g_nodes g') = own_keys (g_nodes g)"
    if a: "(case update_node fa s g of (Some e, g1) \<Rightarrow> (Some e, g1)
            | (None, g1) \<Rightarrow> update_node fb t g1) = (r, g')" for fa fb
  proof (cases "update_node fa s g")
    case (Pair r1 g1)
    then have k1: "own_keys (g_nodes g1) = own_keys (g_nodes g)" using update_node_keys by blast
    show ?thesis
    proof (cases r1)
      case None
      then have "update_node fb t g1 = (r, g')" using a Pair by simp
      then show ?thesis using update_node_keys k1 by metis
    next
      case (Some e)
      then show ?thesis using a Pair k1 by simp
    qed
  qed
  show ?thesis
  proof (cases "s = t")
    case True
    then show ?thesis using assms update_node_keys unfolding update_counters_def by auto
  next
    case False
    then show ?thesis using assms two unfolding update_counters_def by (cases u) auto
  qed
qed

lemma addNode_counts:
  assumes "addNode g node a = (r, g')" and "g_map g" and "counts_ok g"
  shows "counts_ok g' \<and> g_map g'"
proof (cases r)
  case (Some e)
  then show ?thesis using assms addNode_failure by blast
next
  case None
  then have n: "node \<notin> own_keys (g_nodes g)"
    using assms(1,2) by (auto simp: addNode_def hasNode_def table_has_def split: if_splits)
  have "\<exists>h d. g' = g\<lparr>g_heap := h, g_nodes := AList.update node d (g_nodes g), g_order := g_order g + 1\<rparr>"
    using assms(1) None by (auto simp: addNode_def Let_def split: if_splits prod.splits)
  then show ?thesis using assms(2,3) n by (auto simp: counts_ok_def own_keys_update)
qed

lemma private_addEdge_counts:
  assumes "private_addEdge g u e s t a = (r, g')" and "g_map g" and "counts_ok g"
  shows "counts_ok g' \<and> g_map g'"
proof (cases "hasEdge1 g e")
  case True
  then have "g' = g" using assms(1) unfolding private_addEdge_def
    by (auto split: if_splits)
  then show ?thesis using assms(2,3) by simp
next
  case False
  then have ne: "e \<notin> own_keys (g_edges g)" using assms(2) by (simp add: hasEdge1_def table_has_def)
  let ?data = "\<lparr>e_ref = Suc (length (g_heap g)), e_undirected = u,
                    e_attributes = length (g_heap g), e_source = s, e_target = t\<rparr>"
  let ?g1 = "g\<lparr>g_heap := g_heap g @ [Attrs (own_properties (g_heap g) a), EdgeRecord],
              g_edges := AList.update e ?data (g_edges g), g_size := g_size g + 1\<rparr>"
  obtain r2 g2 where uc: "update_counters js_inc u s t ?g1 = (r2, g2)"
    by (cases "update_counters js_inc u s t ?g1")
  obtain ns where g2: "g2 = ?g1\<lparr>g_nodes := ns\<rparr>" using update_counters_frame[OF uc] by blast
  have k2: "own_keys (g_nodes g2) = own_keys (g_nodes ?g1)" using update_counters_keys[OF uc] .
  have ok1: "counts_ok ?g1 \<and> g_map ?g1" using assms(2,3) ne
    by (simp add: counts_ok_def own_keys_update)
  have ok2: "counts_ok g2 \<and> g_map g2" using ok1 k2 unfolding g2 by (simp add: counts_ok_def)
  have "g' = g \<or> g' = g2"
    using assms(1) uc unfolding private_addEdge_def
    by (auto simp: Let_def assign_def alloc_def private_updateIndex_raises
                   hasDirectedEdge2_raises hasUndirectedEdge2_raises
             split: if_splits sum.splits bool.splits option.splits)
  then show ?thesis using ok2 assms(2,3) by auto
qed

lemma dropEdge_counts:
  assumes "dropEdge g e = (r, g')" and "g_map g" and "counts_ok g"
  shows "counts_ok g' \<and> g_map g' \<and> own_keys (g_nodes g') = own_keys (g_nodes g)"
proof (cases "hasEdge1 g e")
  case False
  then show ?thesis using assms by (simp add: dropEdge_def)
next
  case True
  then have ine: "e \<in> own_keys (g_edges g)" using assms(2) by (simp add: hasEdge1_def table_has_def)
  let ?g1 = "g\<lparr>g_edges := AList.delete e (g_edges g), g_size := g_size g - 1\<rparr>"
  have "card (own_keys (g_edges g)) > 0" using ine by (auto simp: card_gt_0_iff)
  then have ok1: "counts_ok ?g1 \<and> g_map ?g1" using assms(2,3) ine
    by (simp add: counts_ok_def own_keys_delete)
  have m: "table_get (g_map g) e (g_edges g) \<noteq> Inherited"
    using assms(2) by (auto simp: table_get_def map_get_def split: option.splits)
  show ?thesis
  proof (cases "table_get (g_map g) e (g_edges g)")
    case Absent
    then have "g' = ?g1" using assms(1) True unfolding dropEdge_def by (simp add: Let_def)
    then show ?thesis using ok1 by simp
  next
    case Inherited
    then show ?thesis using m by simp
  next
    case (Own d)
    let ?u = "update_counters js_dec (e_undirected d) (e_source d) (e_target d) ?g1"
    obtain r2 g2 where uc: "?u = (r2, g2)" by (cases ?u)
    obtain ns where g2: "g2 = ?g1\<lparr>g_nodes := ns\<rparr>" using update_counters_frame[OF uc] by blast
    have k2: "own_keys (g_nodes g2) = own_keys (g_nodes ?g1)" using update_counters_keys[OF uc] .
    have ok2: "counts_ok g2 \<and> g_map g2" using ok1 k2 unfolding g2 by (simp add: counts_ok_def)
    have "g' = g2" using assms(1) True Own uc unfolding dropEdge_def
      by (auto simp: Let_def private_clearEdgeFromIndex_raises split: option.splits if_splits)
    then show ?thesis using ok2 k2 by simp
  qed
qed

lemma drop_all_counts:
  "drop_all es g = (r, g') \<Longrightarrow> g_map g \<Longrightarrow> counts_ok g
   \<Longrightarrow> counts_ok g' \<and> g_map g' \<and> own_keys (g_nodes g') = own_keys (g_nodes g)"
proof (induction es arbitrary: g)
  case Nil
  then show ?case by simp
next
  case (Cons e es)
  obtain r1 g1 where d: "dropEdge g e = (r1, g1)" by (cases "dropEdge g e")
  then have i1: "counts_ok g1 \<and> g_map g1 \<and> own_keys (g_nodes g1) = own_keys (g_nodes g)"
    using dropEdge_counts Cons.prems(2,3) by blast
  show ?case
  proof (cases r1)
    case None
    then have "drop_all es g1 = (r, g')" using Cons.prems(1) d by simp
    then show ?thesis using Cons.IH[of g1] i1 by simp
  next
    case (Some x)
    then show ?thesis using Cons.prems d i1 by simp
  qed
qed

lemma dropNode_counts:
  assumes "dropNode edges_of g node = (r, g')" and "g_map g" and "counts_ok g"
  shows "counts_ok g' \<and> g_map g'"
proof (cases "hasNode g node")
  case False
  then show ?thesis using assms by (simp add: dropNode_def)
next
  case True
  then have inn: "node \<in> own_keys (g_nodes g)" using assms(2) by (simp add: hasNode_def table_has_def)
  show ?thesis
  proof (cases "edges_of g node")
    case (Inl x)
    then show ?thesis using assms True by (simp add: dropNode_def)
  next
    case (Inr es)
    obtain r1 g1 where d: "drop_all es g = (r1, g1)" by (cases "drop_all es g")
    then have i1: "counts_ok g1 \<and> g_map g1 \<and> own_keys (g_nodes g1) = own_keys (g_nodes g)"
      using drop_all_counts assms(2,3) by blast
    show ?thesis
    proof (cases r1)
      case (Some x)
      then show ?thesis using assms(1) True Inr d i1 by (simp add: dropNode_def)
    next
      case None
      then have g': "g' = g1\<lparr>g_nodes := AList.delete node (g_nodes g1), g_order := g_order g1 - 1\<rparr>"
        using assms(1) True Inr d by (simp add: dropNode_def)
      have in1: "node \<in> own_keys (g_nodes g1)" using inn i1 by simp
      then have "card (own_keys (g_nodes g1)) > 0" by (auto simp: card_gt_0_iff)
      then show ?thesis using i1 in1 unfolding g' by (simp add: counts_ok_def own_keys_delete)
    qed
  qed
qed


lemma apply_op_counts:
  assumes "apply_op gen edges_of g op = (r, g')" and "g_map g" and "counts_ok g"
  shows "counts_ok g' \<and> g_map g'"
proof (cases op)
  case (AddNode k a)
  then show ?thesis using assms addNode_counts by simp
next
  case (DropEdge e)
  then show ?thesis using assms dropEdge_counts by simp
next
  case (DropNode node)
  then show ?thesis using assms dropNode_counts by simp
qed (use assms private_addEdge_counts in
      \<open>auto simp: addEdgeWithKey_def addDirectedEdgeWithKey_def addUndirectedEdgeWithKey_def
                  addEdge_def addDirectedEdge_def addUndirectedEdge_def Let_def\<close>)

lemma step_counts:
  assumes "g_map g" and "counts_ok g"
  shows "counts_ok (step gen edges_of g c) \<and> g_map (step gen edges_of g c)"
proof (cases c)
  case (Mutation op)
  then show ?thesis using assms apply_op_counts[of gen edges_of g op]
    by (cases "apply_op gen edges_of g op") auto
next
  case Clear
  then show ?thesis using assms by (simp add: clear_def counts_ok_def own_keys_def)
next
  case ComputeIndex
  then show ?thesis using assms by (simp add: computeIndex_raises)
next
  case (HasDirectedEdge s t)
  then show ?thesis using assms by (simp add: hasDirectedEdge2_raises)
next
  case (HasUndirectedEdge s t)
  then show ?thesis using assms by (simp add: hasUndirectedEdge2_raises)
qed

lemma run_counts:
  "g_map g \<Longrightarrow> counts_ok g
   \<Longrightarrow> counts_ok (run gen edges_of g calls) \<and> g_map (run gen edges_of g calls)"
  unfolding run_def by (induction calls arbitrary: g) (auto simp: step_counts)

lemma order_and_size_with_map_option:
  "counts_ok (run gen edges_of (new_graph ty multi loops True h) calls)"
proof -
  have "g_map (new_graph ty multi loops True h)" "counts_ok (new_graph ty multi loops True h)"
    by (simp_all add: new_graph_def counts_ok_def own_keys_def)
  then show ?thesis using run_counts by blast
qed

section \<open>A failed mutation\<close>

text \<open>
  Claim C6. When a mutation (\<^verbatim>\<open>addNode\<close>, an add-edge variant, \<^verbatim>\<open>dropEdge\<close>,
  \<^verbatim>\<open>dropNode\<close>) raises \<^verbatim>\<open>InvalidArgument\<close>, \<^verbatim>\<open>NotFound\<close> or \<^verbatim>\<open>Usage\<close>, the
  whole state (tables, order, size, counters, index flag and registers, store) is as it
  was before the call. The graph is any graph that a history of calls builds from a new
  one; for \<^verbatim>\<open>dropNode\<close> the method \<^verbatim>\<open>edges\<close> lists keys of the edge table, each once.
\<close>

theorem failed_mutation_commits_nothing:
  assumes "g = run gen edges_of (new_graph ty multi loops mp h) history"
    and "\<forall>node. op = DropNode node \<longrightarrow> lists_existing_edges edges_of g node"
    and "apply_op gen edges_of g op = (Some err, g')"
    and "err \<in> {InvalidArgumentsGraphError, NotFoundGraphError, UsageGraphError}"
  shows "g' = g"
proof -
  have "err \<noteq> TypeError" using assms(4) by auto
  then show ?thesis using apply_op_failure[of op edges_of g gen err g'] assms(2,3) by blast
qed

theorem failed_mutation_commits_nothing_witness:
  "(let g = run kind_generator incident_edges (new_graph TDirected False False False [])
              [Mutation (AddNode ''a'' Omitted), Mutation (AddNode ''b'' Omitted),
               Mutation (AddDirectedEdgeWithKey ''e1'' ''a'' ''b'' Omitted)]
    in apply_op kind_generator incident_edges g (AddDirectedEdgeWithKey ''e3'' ''a'' ''a'' Omitted)
         = (Some UsageGraphError, g)
       \<and> apply_op kind_generator incident_edges g (DropNode ''c'') = (Some NotFoundGraphError, g))"
proof -
  let ?g = "run kind_generator incident_edges (new_graph TDirected False False False [])
              [Mutation (AddNode ''a'' Omitted), Mutation (AddNode ''b'' Omitted),
               Mutation (AddDirectedEdgeWithKey ''e1'' ''a'' ''b'' Omitted)]"
  let ?op1 = "AddDirectedEdgeWithKey ''e3'' ''a'' ''a'' Omitted"
  let ?op2 = "DropNode ''c''"
  have 1: "fst (apply_op kind_generator incident_edges ?g ?op1) = Some UsageGraphError"
    by code_simp
  have 2: "fst (apply_op kind_generator incident_edges ?g ?op2) = Some NotFoundGraphError"
    by code_simp
  have 3: "lists_existing_edges incident_edges ?g ''c''" by code_simp
  have e1: "apply_op kind_generator incident_edges ?g ?op1
              = (Some UsageGraphError, snd (apply_op kind_generator incident_edges ?g ?op1))"
    using 1 by (simp add: prod_eq_iff)
  have e2: "apply_op kind_generator incident_edges ?g ?op2
              = (Some NotFoundGraphError, snd (apply_op kind_generator incident_edges ?g ?op2))"
    using 2 by (simp add: prod_eq_iff)
  have h1: "\<forall>node. ?op1 = DropNode node \<longrightarrow> lists_existing_edges incident_edges ?g node" by simp
  have h2: "\<forall>node. ?op2 = DropNode node \<longrightarrow> lists_existing_edges incident_edges ?g node"
    using 3 by simp
  have s1: "snd (apply_op kind_generator incident_edges ?g ?op1) = ?g"
    by (rule failed_mutation_commits_nothing[OF refl h1 e1]) simp
  have s2: "snd (apply_op kind_generator incident_edges ?g ?op2) = ?g"
    by (rule failed_mutation_commits_nothing[OF refl h2 e2]) simp
  show ?thesis unfolding Let_def using e1 e2 s1 s2 by (simp only: simp_thms)
qed

section \<open>The scenario of the simple directed graph\<close>

text \<open>
  Claim C2. On a directed graph without parallel edges and self-loops, with nodes \<open>a\<close>
  and \<open>b\<close>: adding \<open>e1\<close> from \<open>a\<close> to \<open>b\<close> should succeed, adding \<open>e2\<close> between the
  same nodes should fail with \<^verbatim>\<open>Usage\<close>, adding the loop \<open>e3\<close> should fail with
  \<^verbatim>\<open>Usage\<close>, and \<^verbatim>\<open>dropNode('a')\<close> should leave order \<open>1\<close> and size \<open>0\<close>. In the code
  the addition of \<open>e1\<close> asks \<^verbatim>\<open>hasDirectedEdge('a', 'b')\<close> first, which fails with a
  \<^verbatim>\<open>TypeError\<close> at the guard of \<^verbatim>\<open>computeIndex\<close>: nothing is stored and the size stays
  \<open>0\<close>. The addition of \<open>e2\<close> fails the same way, with a \<^verbatim>\<open>TypeError\<close> and not with
  \<^verbatim>\<open>Usage\<close>. The loop is refused with \<^verbatim>\<open>Usage\<close>. No edge exists then, so when
  \<^verbatim>\<open>edges('a')\<close> returns a list of keys of the edge table the list is empty, and
  \<^verbatim>\<open>dropNode('a')\<close> removes the node: order \<open>1\<close>, size \<open>0\<close>.
\<close>

theorem scenario_simple_directed_graph:
  "(let g = two_nodes TDirected False False False;
        (r1, g1) = addDirectedEdgeWithKey g ''e1'' ''a'' ''b'' Omitted;
        (r2, g2) = addDirectedEdgeWithKey g1 ''e2'' ''a'' ''b'' Omitted;
        (r3, g3) = addDirectedEdgeWithKey g2 ''e3'' ''a'' ''a'' Omitted
    in g_order g = 2 \<and> g_size g = 0
       \<and> r1 = Some TypeError \<and> g1 = g \<and> g_edges g1 = [] \<and> g_size g1 = 0
       \<and> r2 = Some TypeError \<and> g2 = g
       \<and> r3 = Some UsageGraphError \<and> g3 = g
       \<and> (\<forall>edges_of es.
             edges_of g3 ''a'' = Inr es \<and> lists_existing_edges edges_of g3 ''a'' \<longrightarrow>
               fst (dropNode edges_of g3 ''a'') = None
               \<and> map fst (g_nodes (snd (dropNode edges_of g3 ''a''))) = [''b'']
               \<and> g_edges (snd (dropNode edges_of g3 ''a'')) = []
               \<and> g_order (snd (dropNode edges_of g3 ''a'')) = 1
               \<and> g_size (snd (dropNode edges_of g3 ''a'')) = 0))"
proof -
  let ?g = "two_nodes TDirected False False False"
  have a1: "addDirectedEdgeWithKey ?g ''e1'' ''a'' ''b'' Omitted = (Some TypeError, ?g)"
    by code_simp
  have a2: "addDirectedEdgeWithKey ?g ''e2'' ''a'' ''b'' Omitted = (Some TypeError, ?g)"
    by code_simp
  have a3: "addDirectedEdgeWithKey ?g ''e3'' ''a'' ''a'' Omitted = (Some UsageGraphError, ?g)"
    by code_simp
  have c: "g_order ?g = 2" "g_size ?g = 0" "g_edges ?g = []" "hasNode ?g ''a''"
    "map fst (AList.delete ''a'' (g_nodes ?g)) = [''b'']"
    by code_simp+
  have d: "fst (dropNode edges_of ?g ''a'') = None
           \<and> map fst (g_nodes (snd (dropNode edges_of ?g ''a''))) = [''b'']
           \<and> g_edges (snd (dropNode edges_of ?g ''a'')) = []
           \<and> g_order (snd (dropNode edges_of ?g ''a'')) = 1
           \<and> g_size (snd (dropNode edges_of ?g ''a'')) = 0"
    if e: "edges_of ?g ''a'' = Inr es" and l: "lists_existing_edges edges_of ?g ''a''"
    for edges_of es
  proof -
    have "es = []" using e l c(3) by (cases es) (simp_all add: lists_existing_edges_def own_keys_def)
    then show ?thesis using e c by (simp add: dropNode_def)
  qed
  show ?thesis unfolding Let_def a1 a2 a3 prod.case using c(1,2,3) d by blast
qed

theorem scenario_simple_directed_graph_witness:
  "fst (addDirectedEdgeWithKey (two_nodes TDirected False False False) ''e1'' ''a'' ''b'' Omitted)
     = Some TypeError
   \<and> g_order (snd (dropNode (\<lambda>g node. Inr []) (two_nodes TDirected False False False) ''a'')) = 1"
proof -
  let ?g = "two_nodes TDirected False False False"
  let ?edges = "(\<lambda>g node. Inr []) :: edges_method"
  have a1: "addDirectedEdgeWithKey ?g ''e1'' ''a'' ''b'' Omitted = (Some TypeError, ?g)"
    by code_simp
  have a2: "addDirectedEdgeWithKey ?g ''e2'' ''a'' ''b'' Omitted = (Some TypeError, ?g)"
    by code_simp
  have a3: "addDirectedEdgeWithKey ?g ''e3'' ''a'' ''a'' Omitted = (Some UsageGraphError, ?g)"
    by code_simp
  have l: "?edges ?g ''a'' = Inr [] \<and> lists_existing_edges ?edges ?g ''a''"
    by (simp add: lists_existing_edges_def)
  have q: "g_order (snd (dropNode edges_of ?g ''a'')) = 1"
    if "edges_of ?g ''a'' = Inr es \<and> lists_existing_edges edges_of ?g ''a''" for edges_of es
    using scenario_simple_directed_graph that unfolding Let_def a1 a2 a3 prod.case by blast
  show ?thesis using a1 q[of ?edges "[]", OF l] by simp
qed

section \<open>Stored attributes\<close>

lemma deref_append_last: "deref (h @ x # xs) (length h) = Some x"
  by (simp add: deref_def)

lemma deref_update_other: "p < length h \<Longrightarrow> deref ((h @ x # xs)[p := c]) (length h) = Some x"
  by (simp add: deref_def list_update_append nth_append)

lemma deref_append_old: "p < length h \<Longrightarrow> deref (h @ xs) p = deref h p"
  by (simp add: deref_def nth_append)

lemma addNode_admitted:
  assumes "addNode g node a = (r, g')" and "a = Omitted \<or> isPlainObject a" and "\<not> hasNode g node"
  shows "r = None \<and> map_option n_attributes (map_of (g_nodes g') node) = Some (length (g_heap g))
       \<and> g_heap g' = g_heap g @ [Attrs (own_properties (g_heap g) a)]"
  using assms
  by (auto simp: addNode_def Let_def assign_def alloc_def update_conv' split: if_splits)

lemma private_addEdge_admitted:
  assumes "private_addEdge g u e s t a = (r, g')" and "admits_edge g u e s t a"
  shows "edge_attributes g' e = Some (length (g_heap g))
       \<and> g_heap g' = g_heap g @ [Attrs (own_properties (g_heap g) a), EdgeRecord]
       \<and> g_type g' = g_type g"
proof -
  let ?data = "\<lparr>e_ref = Suc (length (g_heap g)), e_undirected = u,
                    e_attributes = length (g_heap g), e_source = s, e_target = t\<rparr>"
  let ?g1 = "g\<lparr>g_heap := g_heap g @ [Attrs (own_properties (g_heap g) a), EdgeRecord],
              g_edges := AList.update e ?data (g_edges g), g_size := g_size g + 1\<rparr>"
  obtain r2 g2 where uc: "update_counters js_inc u s t ?g1 = (r2, g2)"
    by (cases "update_counters js_inc u s t ?g1")
  obtain ns where g2: "g2 = ?g1\<lparr>g_nodes := ns\<rparr>" using update_counters_frame[OF uc] by blast
  have "g' = g2"
    using assms uc unfolding private_addEdge_def admits_edge_def
    by (auto simp: Let_def assign_def alloc_def private_updateIndex_raises
             split: if_splits option.splits)
  then show ?thesis unfolding g2 by (simp add: edge_attributes_def update_conv')
qed

text \<open>
  Claim C10. When \<^verbatim>\<open>addNode\<close> or an add-edge variant passes its checks, it creates a
  record under the key of the operation, and the attributes the record holds are an
  object allocated by the call (its address is none that existed before, so it is not
  the caller's object); its properties are the own properties the argument had at the
  call (none when the argument is left out), each with the very value the argument
  held, so an object that a property refers to is shared with the caller and not copied;
  the call changes no object that existed before; and a later change to any object that
  existed at the call leaves the stored object as it is.
\<close>

theorem stored_attributes_fresh_copy:
  assumes "admitted gen g op" and "apply_op gen edges_of g op = (r, g')"
  shows "\<exists>a. stored_attributes gen g' op = Some a
           \<and> length (g_heap g) \<le> a
           \<and> deref (g_heap g') a = Some (Attrs (own_properties (g_heap g) (attributes_arg op)))
           \<and> (\<forall>p. p < length (g_heap g) \<longrightarrow> deref (g_heap g') p = deref (g_heap g) p)
           \<and> (\<forall>p c. p < length (g_heap g) \<longrightarrow> deref ((g_heap g')[p := c]) a = deref (g_heap g') a)"
proof -
  have "stored_attributes gen g' op = Some (length (g_heap g))
        \<and> (\<exists>xs. g_heap g' = g_heap g @ Attrs (own_properties (g_heap g) (attributes_arg op)) # xs)"
  proof (cases op)
    case (AddNode node a)
    then show ?thesis using assms addNode_admitted[of g node a r g'] by auto
  next
    case (AddEdgeWithKey e s t a)
    then show ?thesis
      using assms private_addEdge_admitted[of g "g_type g = TUndirected" e s t a r g']
      by (auto simp: addEdgeWithKey_def)
  next
    case (AddDirectedEdgeWithKey e s t a)
    then show ?thesis
      using assms private_addEdge_admitted[of g False e s t a r g']
      by (auto simp: addDirectedEdgeWithKey_def)
  next
    case (AddUndirectedEdgeWithKey e s t a)
    then show ?thesis
      using assms private_addEdge_admitted[of g True e s t a r g']
      by (auto simp: addUndirectedEdgeWithKey_def)
  next
    case (AddEdge s t a)
    then show ?thesis
      using assms private_addEdge_admitted[of g "g_type g = TUndirected"
                "gen (g_type g = TUndirected) s t a" s t a r g']
      by (auto simp: addEdge_def Let_def)
  next
    case (AddDirectedEdge s t a)
    then show ?thesis
      using assms private_addEdge_admitted[of g False "gen False s t a" s t a r g']
      by (auto simp: addDirectedEdge_def Let_def)
  next
    case (AddUndirectedEdge s t a)
    then show ?thesis
      using assms private_addEdge_admitted[of g True "gen False s t a" s t a r g']
      by (auto simp: addUndirectedEdge_def Let_def)
  next
    case (DropEdge e)
    then show ?thesis using assms by simp
  next
    case (DropNode n)
    then show ?thesis using assms by simp
  qed
  then obtain xs where st: "stored_attributes gen g' op = Some (length (g_heap g))"
    and hp: "g_heap g' = g_heap g @ Attrs (own_properties (g_heap g) (attributes_arg op)) # xs"
    by blast
  show ?thesis using st hp
    by (simp add: deref_append_last deref_update_other deref_append_old)
qed

theorem stored_attributes_fresh_copy_witness:
  "(let h = [Attrs [(''tags'', Reference 1), (''color'', Primitive ''red'')],
             Attrs [(''first'', Primitive ''x'')]];
        g = snd (addNode (snd (addNode (new_graph TMixed True True False h) ''a'' Omitted))
                   ''b'' Omitted);
        n = AddNode ''c'' (PlainObject 0);
        e = AddUndirectedEdge ''a'' ''b'' (PlainObject 0);
        gn = snd (apply_op kind_generator incident_edges g n);
        ge = snd (apply_op kind_generator incident_edges g e)
    in stored_attributes kind_generator gn n = Some 4
       \<and> deref ((g_heap gn)[0 := Attrs [(''color'', Primitive ''blue'')]]) 4
           = Some (Attrs [(''tags'', Reference 1), (''color'', Primitive ''red'')])
       \<and> stored_attributes kind_generator ge e = Some 4
       \<and> deref ((g_heap ge)[0 := Attrs [(''color'', Primitive ''blue'')]]) 4
           = Some (Attrs [(''tags'', Reference 1), (''color'', Primitive ''red'')])
       \<and> deref (g_heap ge) 1 = Some (Attrs [(''first'', Primitive ''x'')]))"
proof -
  let ?h = "[Attrs [(''tags'', Reference 1), (''color'', Primitive ''red'')],
             Attrs [(''first'', Primitive ''x'')]]"
  let ?g = "snd (addNode (snd (addNode (new_graph TMixed True True False ?h) ''a'' Omitted))
                   ''b'' Omitted)"
  let ?blue = "Attrs [(''color'', Primitive ''blue'')]"
  let ?red = "Attrs [(''tags'', Reference 1), (''color'', Primitive ''red'')]"
  have pos: "0 < length (g_heap ?g)" "1 < length (g_heap ?g)" by code_simp+
  have old: "deref (g_heap ?g) 1 = Some (Attrs [(''first'', Primitive ''x'')])" by code_simp
  have copy: "stored_attributes kind_generator (snd (apply_op kind_generator incident_edges ?g op)) op = Some 4
          \<and> deref ((g_heap (snd (apply_op kind_generator incident_edges ?g op)))[0 := ?blue]) 4 = Some ?red
          \<and> deref (g_heap (snd (apply_op kind_generator incident_edges ?g op))) 1
              = Some (Attrs [(''first'', Primitive ''x'')])"
    if ad: "admitted kind_generator ?g op"
      and after: "stored_attributes kind_generator (snd (apply_op kind_generator incident_edges ?g op)) op = Some 4"
      and props: "own_properties (g_heap ?g) (attributes_arg op)
                    = [(''tags'', Reference 1), (''color'', Primitive ''red'')]"
    for op
  proof -
    let ?g' = "snd (apply_op kind_generator incident_edges ?g op)"
    have ap: "apply_op kind_generator incident_edges ?g op
                = (fst (apply_op kind_generator incident_edges ?g op), ?g')"
      by simp
    from stored_attributes_fresh_copy[OF ad ap]
    obtain a where a: "stored_attributes kind_generator ?g' op = Some a"
      and c: "deref (g_heap ?g') a = Some (Attrs (own_properties (g_heap ?g) (attributes_arg op)))"
      and o: "\<forall>p. p < length (g_heap ?g) \<longrightarrow> deref (g_heap ?g') p = deref (g_heap ?g) p"
      and k: "\<forall>p c. p < length (g_heap ?g) \<longrightarrow> deref ((g_heap ?g')[p := c]) a = deref (g_heap ?g') a"
      by blast
    have "Some a = Some (4::nat)" using a[symmetric] after by (rule trans)
    then have a4: "a = 4" by (simp only: option.inject)
    have 1: "deref ((g_heap ?g')[0 := ?blue]) a = Some ?red"
      using k[rule_format, OF pos(1), of ?blue] c props by (simp only:)
    have 2: "deref (g_heap ?g') 1 = Some (Attrs [(''first'', Primitive ''x'')])"
      using o[rule_format, OF pos(2)] old by (simp only:)
    show ?thesis using after 1 2 unfolding a4 by (simp only: simp_thms)
  qed
  have n: "admitted kind_generator ?g (AddNode ''c'' (PlainObject 0))" by code_simp
  have e: "admitted kind_generator ?g (AddUndirectedEdge ''a'' ''b'' (PlainObject 0))" by code_simp
  have sn: "stored_attributes kind_generator
              (snd (apply_op kind_generator incident_edges ?g (AddNode ''c'' (PlainObject 0))))
              (AddNode ''c'' (PlainObject 0)) = Some 4"
    by code_simp
  have se: "stored_attributes kind_generator
              (snd (apply_op kind_generator incident_edges ?g (AddUndirectedEdge ''a'' ''b'' (PlainObject 0))))
              (AddUndirectedEdge ''a'' ''b'' (PlainObject 0)) = Some 4"
    by code_simp
  have pn: "own_properties (g_heap ?g) (attributes_arg (AddNode ''c'' (PlainObject 0)))
              = [(''tags'', Reference 1), (''color'', Primitive ''red'')]"
    by code_simp
  have pe: "own_properties (g_heap ?g) (attributes_arg (AddUndirectedEdge ''a'' ''b'' (PlainObject 0)))
              = [(''tags'', Reference 1), (''color'', Primitive ''red'')]"
    by code_simp
  show ?thesis unfolding Let_def using copy[OF n sn pn] copy[OF e se pe] by (simp only: simp_thms)
qed

section \<open>Upgrade of a simple index to a multi index\<close>

lemma upgrade_undirected_filter:
  "upgrade_undirected node ns g = upgrade_undirected node (filter (\<lambda>n. \<not> n > node) ns) g"
  by (induction ns arbitrary: g) (auto split: prod.splits option.splits)

lemma two_node_upgrade:
  assumes "A \<noteq> B"
  shows "upgradeStructureIndexToMulti
           (indexed_graph False True
              [(A, index_node [(B, EdgeRef e1)] [] [(B, EdgeRef e2)]),
               (B, index_node [] [(A, EdgeRef e1)] [(A, EdgeRef e2)])] h)
         = (None,
            indexed_graph False True
              [(A, index_node [(B, SetRef (length h))] [] [(B, SetRef (Suc (length h)))]),
               (B, index_node [] [(A, SetRef (length h))] [(A, SetRef (Suc (length h)))])]
              (h @ [SetObj [EdgeRef e1], SetObj [EdgeRef e2]]))"
proof (cases "B > A")
  case True
  then have "\<not> A > B" by simp
  with True assms show ?thesis
    by (simp add: upgradeStructureIndexToMulti_def upgrade_node_def wrap_entry_def node_register_def
        write_register_def indexed_graph_def index_node_def alloc_def Let_def)
next
  case False
  with assms show ?thesis
    by (simp add: upgradeStructureIndexToMulti_def upgrade_node_def wrap_entry_def node_register_def
        write_register_def indexed_graph_def index_node_def alloc_def Let_def)
qed



lemma heap_write [simp]: "g_heap (write_register g k sl r) = g_heap g"
  by (simp add: write_register_def split: option.splits)

lemma update_existing_keys: "map_of al k = Some v \<Longrightarrow> map fst (AList.update k w al) = map fst al"
  by (induction al) (auto split: if_splits)

lemma keys_write [simp]: "map fst (g_nodes (write_register g k sl r)) = map fst (g_nodes g)"
  by (auto simp: write_register_def update_existing_keys split: option.splits)

lemma node_register_heap [simp]: "node_register (g\<lparr>g_heap := h\<rparr>) nd sl = node_register g nd sl"
  by (cases nd) (simp_all add: node_register_def)



























section \<open>Shared adjacency entries\<close>


lemma ent_heap [simp]: "ent (g\<lparr>g_heap := h\<rparr>) sl A B = ent g sl A B"
  by (simp add: ent_def)









end
